theory Spec2Isabelle
  imports Main "HOL-Library.Word" "HOL-Library.Sublist"
begin

section \<open>JavaScript values\<close>

text \<open>
  A JavaScript string is a sequence of 16-bit code units, and \<^verbatim>\<open>s.length\<close> counts them.
  ASCII literals of the source are written through \<open>js\<close>; the Chinese text of the
  source's messages is given by its code units.

  JavaScript numbers that hold line numbers, offsets and sizes are modelled as \<open>int\<close>
  (exact below \<open>2^53\<close>, which every line number and offset of a source file is).
  A \<^verbatim>\<open>Set\<close> of numbers is the list of its elements in insertion order.
\<close>

type_synonym jsstring = "16 word list"

definition js :: "string \<Rightarrow> jsstring" where
  "js s = map of_char s"

text \<open>\<^verbatim>\<open>new Set(xs)\<close>: the elements of \<open>xs\<close> in order of first insertion.\<close>

fun set_add :: "'a list \<Rightarrow> 'a \<Rightarrow> 'a list" where
  "set_add s x = (if x \<in> set s then s else s @ [x])"

definition new_Set :: "'a list \<Rightarrow> 'a list" where
  "new_Set xs = fold (\<lambda>x s. set_add s x) xs []"

text \<open>
  \<^verbatim>\<open>s.substring(a, b)\<close>: both arguments are clamped to \<open>0 .. length s\<close> and swapped when
  \<open>a > b\<close>.
\<close>

definition substring :: "jsstring \<Rightarrow> int \<Rightarrow> int \<Rightarrow> jsstring" where
  "substring s a b =
     (let n = int (length s);
          a' = max 0 (min a n);
          b' = max 0 (min b n);
          lo = min a' b';
          hi = max a' b'
      in take (nat (hi - lo)) (drop (nat lo) s))"

text \<open>
  \<^verbatim>\<open>xs.slice(a, b)\<close>: a negative index counts from the end, both are clamped to the
  length.
\<close>

definition js_slice :: "'a list \<Rightarrow> int \<Rightarrow> int \<Rightarrow> 'a list" where
  "js_slice xs a b =
     (let n = int (length xs);
          from = (if a < 0 then max (n + a) 0 else min a n);
          to = (if b < 0 then max (n + b) 0 else min b n)
      in take (nat (to - from)) (drop (nat from) xs))"

text \<open>\<^verbatim>\<open>s.split('\n')\<close> (code unit 10) and \<^verbatim>\<open>xs.join(sep)\<close>.\<close>

fun split_nl :: "jsstring \<Rightarrow> jsstring list" where
  "split_nl [] = [[]]"
| "split_nl (c # cs) =
     (if c = 10 then [] # split_nl cs
      else (case split_nl cs of
              [] \<Rightarrow> [[c]]
            | l # ls \<Rightarrow> (c # l) # ls))"

fun join :: "jsstring \<Rightarrow> jsstring list \<Rightarrow> jsstring" where
  "join sep [] = []"
| "join sep [x] = x"
| "join sep (x # y # ys) = x @ sep @ join sep (y # ys)"

text \<open>
  The decimal text of an integer, as a template literal \<^verbatim>\<open>${n}\<close> renders it, and
  \<^verbatim>\<open>parseInt(ds, 10)\<close> on a string of decimal digits.
\<close>

fun show_nat :: "nat \<Rightarrow> jsstring" where
  "show_nat n = (if n < 10 then [48 + of_nat n] else show_nat (n div 10) @ [48 + of_nat (n mod 10)])"

definition show_int :: "int \<Rightarrow> jsstring" where
  "show_int i = (if i < 0 then 45 # show_nat (nat (- i)) else show_nat (nat i))"

definition is_digit :: "16 word \<Rightarrow> bool" where
  "is_digit c = (48 \<le> c \<and> c \<le> 57)"

definition parseInt :: "jsstring \<Rightarrow> int" where
  "parseInt ds = foldl (\<lambda>n c. 10 * n + (uint c - 48)) 0 ds"

text \<open>\<^verbatim>\<open>s.startsWith(p)\<close> is \<open>prefix p s\<close>; \<^verbatim>\<open>s.includes(p)\<close> is \<open>sublist p s\<close>.\<close>

section \<open>The Line-Map Builder (diff_utils.js)\<close>

text \<open>
  The regular expression of line 22, \<^verbatim>\<open>/@@ -\d+(,\d+)? \+(\d+)(,\d+)? @@/\<close>, piece by
  piece. Each \<^verbatim>\<open>\d+\<close> is followed by a character that is no digit, so the greedy match
  is the only one and backtracking finds nothing else.
\<close>

definition match_lit :: "jsstring \<Rightarrow> jsstring \<Rightarrow> jsstring option" where
  "match_lit p s = (if prefix p s then Some (drop (length p) s) else None)"

definition match_digits :: "jsstring \<Rightarrow> (jsstring \<times> jsstring) option" where
  "match_digits s =
     (let ds = takeWhile is_digit s
      in if ds = [] then None else Some (ds, dropWhile is_digit s))"

definition match_opt_len :: "jsstring \<Rightarrow> jsstring" where
  "match_opt_len s =
     (case match_lit (js '','') s of
        None \<Rightarrow> s
      | Some r \<Rightarrow> (case match_digits r of None \<Rightarrow> s | Some (ds, r') \<Rightarrow> r'))"

text \<open>The expression anchored at the start of \<open>s\<close>; the result is group 2.\<close>

definition hunk_header_at :: "jsstring \<Rightarrow> jsstring option" where
  "hunk_header_at s =
     (case match_lit (js ''@@ -'') s of
        None \<Rightarrow> None
      | Some r1 \<Rightarrow>
         (case match_digits r1 of
            None \<Rightarrow> None
          | Some (old_start, r2) \<Rightarrow>
             (case match_lit (js '' +'') (match_opt_len r2) of
                None \<Rightarrow> None
              | Some r3 \<Rightarrow>
                 (case match_digits r3 of
                    None \<Rightarrow> None
                  | Some (new_start, r4) \<Rightarrow>
                     (case match_lit (js '' @@'') (match_opt_len r4) of
                        None \<Rightarrow> None
                      | Some r5 \<Rightarrow> Some new_start)))))"

text \<open>\<^verbatim>\<open>exec\<close> searches the line from the left for the first position that matches.\<close>

fun hunk_header_exec :: "jsstring \<Rightarrow> jsstring option" where
  "hunk_header_exec [] = hunk_header_at []"
| "hunk_header_exec (c # cs) =
     (case hunk_header_at (c # cs) of
        Some g \<Rightarrow> Some g
      | None \<Rightarrow> hunk_header_exec cs)"

text \<open>
  The loop of \<^verbatim>\<open>parseDiffNewlineMap\<close> (lines 17-40): \<open>i\<close> is the index of the line,
  \<open>currentNewLine\<close> and \<open>mapping\<close> are the mutable locals. A matched group 2 is a
  non-empty string, hence truthy.
\<close>

fun parse_loop :: "jsstring list \<Rightarrow> int \<Rightarrow> int \<Rightarrow> (int \<times> int) list \<Rightarrow> (int \<times> int) list" where
  "parse_loop [] i currentNewLine mapping = mapping"
| "parse_loop (line # rest) i currentNewLine mapping =
     (if prefix (js ''@@'') line then
        (case hunk_header_exec line of
           Some g \<Rightarrow>
             (if g \<noteq> [] then parse_loop rest (i + 1) (parseInt g) mapping
              else parse_loop rest (i + 1) currentNewLine mapping)
         | None \<Rightarrow> parse_loop rest (i + 1) currentNewLine mapping)
      else if prefix (js ''+'') line \<and> \<not> prefix (js ''+++'') line then
        (if currentNewLine \<noteq> - 1
         then parse_loop rest (i + 1) (currentNewLine + 1) (mapping @ [(i + 1, currentNewLine)])
         else parse_loop rest (i + 1) currentNewLine mapping)
      else if \<not> prefix (js ''-'') line \<or> prefix (js ''---'') line then
        (if currentNewLine \<noteq> - 1
         then parse_loop rest (i + 1) (currentNewLine + 1) mapping
         else parse_loop rest (i + 1) currentNewLine mapping)
      else parse_loop rest (i + 1) currentNewLine mapping)"

definition parseDiffNewlineMap :: "jsstring \<Rightarrow> (int \<times> int) list" where
  "parseDiffNewlineMap diffText = parse_loop (split_nl diffText) 0 (- 1) []"

text \<open>
  The Added-Line Set as \<^verbatim>\<open>reviewSingleFile\<close> builds it (review_engine.js, lines 21-22).
\<close>

definition addedLineSet :: "jsstring \<Rightarrow> int list" where
  "addedLineSet diffText = new_Set (map snd (parseDiffNewlineMap diffText))"

text \<open>
  The numbered diff of the same module: \<^verbatim>\<open>splitHunks\<close> (lines 47-99). The expression of
  line 72 is \<^verbatim>\<open>/@@ -(\d+),?(\d+)? \+(\d+),?(\d+)? @@/\<close>; the result here is groups 1 and 3.
\<close>

definition match_opt_comma_digits :: "jsstring \<Rightarrow> jsstring" where
  "match_opt_comma_digits s =
     dropWhile is_digit (case match_lit (js '','') s of None \<Rightarrow> s | Some r \<Rightarrow> r)"

definition split_header_at :: "jsstring \<Rightarrow> (jsstring \<times> jsstring) option" where
  "split_header_at s =
     (case match_lit (js ''@@ -'') s of
        None \<Rightarrow> None
      | Some r1 \<Rightarrow>
         (case match_digits r1 of
            None \<Rightarrow> None
          | Some (old_start, r2) \<Rightarrow>
             (case match_lit (js '' +'') (match_opt_comma_digits r2) of
                None \<Rightarrow> None
              | Some r3 \<Rightarrow>
                 (case match_digits r3 of
                    None \<Rightarrow> None
                  | Some (new_start, r4) \<Rightarrow>
                     (case match_lit (js '' @@'') (match_opt_comma_digits r4) of
                        None \<Rightarrow> None
                      | Some r5 \<Rightarrow> Some (old_start, new_start))))))"

fun split_header_match :: "jsstring \<Rightarrow> (jsstring \<times> jsstring) option" where
  "split_header_match [] = split_header_at []"
| "split_header_match (c # cs) =
     (case split_header_at (c # cs) of
        Some g \<Rightarrow> Some g
      | None \<Rightarrow> split_header_match cs)"

record hunk =
  oldStart :: int
  newStart :: int
  hunkLines :: "jsstring list"

record split_state =
  hunks :: "hunk list"
  currentHunk :: hunk
  inHunk :: bool

definition empty_hunk :: hunk where
  "empty_hunk = \<lparr>oldStart = 0, newStart = 0, hunkLines = []\<rparr>"

definition is_file_header :: "jsstring \<Rightarrow> bool" where
  "is_file_header line =
     (prefix (js ''diff --git'') line \<or> prefix (js ''---'') line \<or> prefix (js ''+++'') line \<or>
      prefix (js ''index '') line \<or> prefix (js ''new file '') line \<or>
      prefix (js ''deleted file '') line)"

definition split_step :: "jsstring \<Rightarrow> split_state \<Rightarrow> split_state" where
  "split_step line st =
     (if \<not> inHunk st \<and> is_file_header line then st
      else
        (let st1 =
               (if prefix (js ''@@'') line then
                  (let st2 = (if length (hunkLines (currentHunk st)) \<noteq> 0
                              then st\<lparr>hunks := hunks st @ [currentHunk st],
                                      currentHunk := empty_hunk, inHunk := True\<rparr>
                              else st\<lparr>inHunk := True\<rparr>)
                   in case split_header_match line of
                        None \<Rightarrow> st2
                      | Some (g1, g3) \<Rightarrow>
                          st2\<lparr>currentHunk := (currentHunk st2)\<lparr>oldStart := parseInt g1,
                                                                    newStart := parseInt g3\<rparr>\<rparr>)
                else st)
         in if inHunk st1
            then st1\<lparr>currentHunk :=
                       (currentHunk st1)\<lparr>hunkLines := hunkLines (currentHunk st1) @ [line]\<rparr>\<rparr>
            else st1))"

definition splitHunks :: "jsstring \<Rightarrow> hunk list" where
  "splitHunks diffText =
     (let st = fold split_step (split_nl diffText)
                 \<lparr>hunks = [], currentHunk = empty_hunk, inHunk = False\<rparr>
      in if length (hunkLines (currentHunk st)) \<noteq> 0
         then hunks st @ [currentHunk st]
         else hunks st)"

text \<open>
  \<^verbatim>\<open>computeHunkLineNumbers\<close> (lines 104-148). The two \<^verbatim>\<open>Map\<close>s are partial functions from
  line numbers to lines.
\<close>

record number_state =
  temp :: "(jsstring \<times> jsstring) list"
  maxHeaderLength :: nat
  oldLinesMap :: "int \<rightharpoonup> jsstring"
  newLinesMap :: "int \<rightharpoonup> jsstring"
  oldLineNumber :: int
  newLineNumber :: int

definition number_step :: "jsstring \<Rightarrow> number_state \<Rightarrow> number_state" where
  "number_step line st =
     (if prefix (js ''-'') line then
        (let header = js ''('' @ show_int (oldLineNumber st) @ js '', )''
         in st\<lparr>temp := temp st @ [(header, line)],
               oldLinesMap := (oldLinesMap st)(oldLineNumber st \<mapsto> line),
               oldLineNumber := oldLineNumber st + 1,
               maxHeaderLength := max (maxHeaderLength st) (length header)\<rparr>)
      else if prefix (js ''+'') line then
        (let header = js ''( , '' @ show_int (newLineNumber st) @ js '')''
         in st\<lparr>temp := temp st @ [(header, line)],
               newLinesMap := (newLinesMap st)(newLineNumber st \<mapsto> line),
               newLineNumber := newLineNumber st + 1,
               maxHeaderLength := max (maxHeaderLength st) (length header)\<rparr>)
      else
        (let header = js ''('' @ show_int (oldLineNumber st) @ js '', '' @
                      show_int (newLineNumber st) @ js '')''
         in st\<lparr>temp := temp st @ [(header, line)],
               oldLinesMap := (oldLinesMap st)(oldLineNumber st \<mapsto> line),
               newLinesMap := (newLinesMap st)(newLineNumber st \<mapsto> line),
               oldLineNumber := oldLineNumber st + 1,
               newLineNumber := newLineNumber st + 1,
               maxHeaderLength := max (maxHeaderLength st) (length header)\<rparr>))"

definition padEnd :: "jsstring \<Rightarrow> nat \<Rightarrow> jsstring" where
  "padEnd s n = s @ replicate (n - length s) 32"

record numbered_hunk =
  newHunkLines :: "jsstring list"
  hunk_newLinesMap :: "int \<rightharpoonup> jsstring"
  hunk_oldLinesMap :: "int \<rightharpoonup> jsstring"

definition computeHunkLineNumbers :: "hunk \<Rightarrow> numbered_hunk" where
  "computeHunkLineNumbers h =
     (let st = fold number_step (js_slice (hunkLines h) 1 (int (length (hunkLines h))))
                 \<lparr>temp = [], maxHeaderLength = 0, oldLinesMap = Map.empty,
                  newLinesMap = Map.empty, oldLineNumber = oldStart h,
                  newLineNumber = newStart h\<rparr>
      in \<lparr>newHunkLines = take 1 (hunkLines h) @
             map (\<lambda>(header, line). padEnd header (maxHeaderLength st) @ js '' '' @ line) (temp st),
          hunk_newLinesMap = newLinesMap st,
          hunk_oldLinesMap = oldLinesMap st\<rparr>)"

text \<open>\<^verbatim>\<open>addLineNumbersToDiff\<close> (lines 153-173).\<close>

record numbered_diff =
  extendedDiff :: jsstring
  allNewLinesMap :: "int \<rightharpoonup> jsstring"
  allOldLinesMap :: "int \<rightharpoonup> jsstring"

definition addLineNumbersToDiff :: "jsstring \<Rightarrow> numbered_diff" where
  "addLineNumbersToDiff diffText =
     (let parts = map computeHunkLineNumbers (splitHunks diffText)
      in \<lparr>extendedDiff = join [10] (map (\<lambda>p. join [10] (newHunkLines p)) parts),
          allNewLinesMap = fold (\<lambda>p m. m ++ hunk_newLinesMap p) parts Map.empty,
          allOldLinesMap = fold (\<lambda>p m. m ++ hunk_oldLinesMap p) parts Map.empty\<rparr>)"

text \<open>
  The new-file line numbers of the lines that begin with \<open>+\<close>, as section 4.1 of the
  specification words them: the counter starts from the hunk header; a line beginning
  with \<open>-\<close> leaves it, a line beginning with \<open>+\<close> is registered at it and advances it,
  any other line advances it. Lines before the first header are no hunk content, and a
  header that does not parse gives no mapping until the next one that does
  (\<open>None\<close> is "no counter").
\<close>

fun spec_new_lines :: "jsstring list \<Rightarrow> int option \<Rightarrow> int list" where
  "spec_new_lines [] counter = []"
| "spec_new_lines (line # rest) counter =
     (if prefix (js ''@@'') line
      then spec_new_lines rest (map_option parseInt (hunk_header_exec line))
      else (case counter of
              None \<Rightarrow> spec_new_lines rest None
            | Some n \<Rightarrow>
                if prefix (js ''-'') line then spec_new_lines rest (Some n)
                else if prefix (js ''+'') line then n # spec_new_lines rest (Some (n + 1))
                else spec_new_lines rest (Some (n + 1))))"

definition spec_addedLineSet :: "jsstring \<Rightarrow> int list" where
  "spec_addedLineSet diffText = new_Set (spec_new_lines (split_nl diffText) None)"

text \<open>Every line that begins with \<open>@@\<close> matches the header expression.\<close>

definition headers_parse :: "jsstring \<Rightarrow> bool" where
  "headers_parse diffText =
     list_all (\<lambda>line. if prefix (js ''@@'') line then hunk_header_exec line \<noteq> None else True)
       (split_nl diffText)"

text \<open>
  The lines of a diff in which every header parses and no line of a hunk begins with
  \<open>---\<close> or \<open>+++\<close> (\<open>in_hunk\<close>: a header has been seen).
\<close>

fun plain_hunk_lines :: "jsstring list \<Rightarrow> bool \<Rightarrow> bool" where
  "plain_hunk_lines [] in_hunk = True"
| "plain_hunk_lines (line # rest) in_hunk =
     (if prefix (js ''@@'') line
      then hunk_header_exec line \<noteq> None \<and> plain_hunk_lines rest True
      else (if in_hunk then \<not> prefix (js ''---'') line \<and> \<not> prefix (js ''+++'') line else True) \<and>
           plain_hunk_lines rest in_hunk)"

section \<open>Candidate units and Sections\<close>

text \<open>
  The objects pushed by \<^verbatim>\<open>collectImpactedSections\<close> (ast_context.js, lines 131-140):
  the fields \<^verbatim>\<open>type\<close> and \<^verbatim>\<open>size\<close> are named \<open>sec_type\<close> and \<open>size_lines\<close> here.
\<close>

record unit_fields =
  sec_type :: jsstring
  name :: jsstring
  start_line :: int
  end_line :: int
  added_lines :: "int list"

record candidate = unit_fields +
  start_offset :: int
  end_offset :: int
  size_lines :: int

section \<open>The Minimal-Coverage Selector (ast_utils.js, selectSmallestSections)\<close>

text \<open>
  The \<^verbatim>\<open>for\<close> loop of lines 123-135: \<open>selected\<close> and \<open>coveredLines\<close> are the two
  mutable locals, threaded through the recursion.
\<close>

fun select_loop :: "candidate list \<Rightarrow> candidate list \<Rightarrow> int set \<Rightarrow> candidate list" where
  "select_loop [] selected coveredLines = selected"
| "select_loop (section # rest) selected coveredLines =
     (let sectionLines = filter (\<lambda>line. line \<notin> coveredLines) (added_lines section)
      in if length sectionLines > 0
         then select_loop rest (selected @ [section]) (coveredLines \<union> set (added_lines section))
         else select_loop rest selected coveredLines)"

text \<open>
  \<^verbatim>\<open>[...sections].sort((a, b) => a.size - b.size)\<close> is a stable ascending sort on
  \<open>size\<close>; \<open>sort_key\<close> is the stable insertion sort.
\<close>

definition selectSmallestSections :: "candidate list \<Rightarrow> int list \<Rightarrow> candidate list" where
  "selectSmallestSections sections addedLines =
     (if length sections = 0 then []
      else if length sections = 1 then sections
      else select_loop (sort_key size_lines sections) [] {})"

text \<open>The union of the \<open>added_lines\<close> of a list of units.\<close>

definition lines_of :: "('a unit_fields_scheme) list \<Rightarrow> int set" where
  "lines_of us = \<Union> (set (map (\<lambda>u. set (added_lines u)) us))"

section \<open>Configuration and the syntax tree\<close>

text \<open>The \<^verbatim>\<open>astConfig\<close> object of config.js (lines 267-272).\<close>

record config =
  maxSnippetLength :: int
  maxBlockSizeLines :: int
  maxDepth :: int
  timeoutMs :: int

text \<open>
  What the extractors read of a Babel node: \<^verbatim>\<open>node.type\<close>, \<^verbatim>\<open>node.loc\<close> (the start and
  end line; \<open>None\<close> when \<^verbatim>\<open>loc\<close>, \<^verbatim>\<open>loc.start\<close> or \<^verbatim>\<open>loc.end\<close> is missing),
  \<^verbatim>\<open>node.start\<close>, \<^verbatim>\<open>node.end\<close>, \<^verbatim>\<open>node.id.name\<close> and \<^verbatim>\<open>node.key\<close> with its \<^verbatim>\<open>name\<close>
  and \<^verbatim>\<open>value\<close>. A tree is a node with the child nodes the traversal visits, in order.
\<close>

record node_key =
  key_name :: "jsstring option"
  key_value :: "jsstring option"

record node_info =
  ntype :: jsstring
  loc :: "(int \<times> int) option"
  nstart :: int
  nend :: int
  id_name :: "jsstring option"
  key :: "node_key option"

datatype ast = Node node_info "ast list"

text \<open>A string that is present and truthy (not empty).\<close>

fun named :: "jsstring option \<Rightarrow> jsstring option" where
  "named None = None"
| "named (Some s) = (if s = [] then None else Some s)"

text \<open>\<^verbatim>\<open>isTargetNode\<close> (ast_utils.js, lines 95-104).\<close>

definition isTargetNode :: "node_info \<Rightarrow> bool" where
  "isTargetNode node =
     (ntype node = js ''FunctionDeclaration'' \<or>
      ntype node = js ''FunctionExpression'' \<or>
      ntype node = js ''ArrowFunctionExpression'' \<or>
      ntype node = js ''ClassMethod'' \<or>
      ntype node = js ''ObjectMethod'' \<or>
      ntype node = js ''ClassDeclaration'')"

section \<open>Safety primitives (ast_utils.js)\<close>

text \<open>
  \<^verbatim>\<open>createDepthLimiter\<close>: the message thrown by \<^verbatim>\<open>enter\<close> (line 78), and the text that
  the extractors look for in it (the last four characters before the bracket).
\<close>

definition depth_exceeded_text :: jsstring where
  "depth_exceeded_text = [0x6DF1, 0x5EA6, 0x8D85, 0x9650]"

definition depth_error :: "int \<Rightarrow> jsstring" where
  "depth_error maxDepth' =
     js ''AST'' @ [0x904D, 0x5386] @ depth_exceeded_text @ js '' (>'' @ show_int maxDepth' @ js '')''"

text \<open>
  \<^verbatim>\<open>withTimeout\<close>: the outcome of the raced promise (\<open>Inl\<close> a thrown message), unless the
  timer fires first.
\<close>

definition withTimeout :: "jsstring + 'a \<Rightarrow> bool \<Rightarrow> jsstring \<Rightarrow> jsstring + 'a" where
  "withTimeout outcome timer_first errorMessage =
     (if timer_first then Inl errorMessage else outcome)"

section \<open>Traversal\<close>

text \<open>
  The state a traversal mutates: the \<^verbatim>\<open>sections\<close> array, the depth limiter's counter and
  the exception that stopped the traversal, if any.
\<close>

record 'a walk_state =
  sections :: "'a list"
  currentDepth :: int
  thrown :: "jsstring option"

text \<open>
  \<^verbatim>\<open>traverse(ast, {enter, exit})\<close>: \<open>enter\<close> on a node, then its children in order, then
  \<open>exit\<close>; an exception ends the traversal. The handlers get the node's ancestors,
  nearest first (\<^verbatim>\<open>astPath.parentPath\<close>, \<^verbatim>\<open>astPath.findParent\<close>). The root passed to
  \<^verbatim>\<open>traverse\<close> is not visited itself.
\<close>

fun traverse_node ::
  "(node_info list \<Rightarrow> node_info \<Rightarrow> 'a walk_state \<Rightarrow> 'a walk_state) \<Rightarrow>
   ('a walk_state \<Rightarrow> 'a walk_state) \<Rightarrow> node_info list \<Rightarrow> ast \<Rightarrow> 'a walk_state \<Rightarrow> 'a walk_state" where
  "traverse_node enter exit ancestors (Node node children) st =
     (if thrown st \<noteq> None then st
      else let st1 = enter ancestors node st
           in if thrown st1 \<noteq> None then st1
              else let st2 = fold (traverse_node enter exit (node # ancestors)) children st1
                   in if thrown st2 \<noteq> None then st2 else exit st2)"

fun traverse ::
  "(node_info list \<Rightarrow> node_info \<Rightarrow> 'a walk_state \<Rightarrow> 'a walk_state) \<Rightarrow>
   ('a walk_state \<Rightarrow> 'a walk_state) \<Rightarrow> ast \<Rightarrow> 'a walk_state \<Rightarrow> 'a walk_state" where
  "traverse enter exit (Node root children) st =
     fold (traverse_node enter exit [root]) children st"

definition depth_enter :: "config \<Rightarrow> 'a walk_state \<Rightarrow> 'a walk_state" where
  "depth_enter cfg st =
     (let st1 = st\<lparr>currentDepth := currentDepth st + 1\<rparr>
      in if currentDepth st1 > maxDepth cfg
         then st1\<lparr>thrown := Some (depth_error (maxDepth cfg))\<rparr>
         else st1)"

definition depth_exit :: "'a walk_state \<Rightarrow> 'a walk_state" where
  "depth_exit st = st\<lparr>currentDepth := currentDepth st - 1\<rparr>"

section \<open>The Script Context Extractor (ast_context.js)\<close>

text \<open>The Section objects of the result.\<close>

record impacted_section = unit_fields +
  snippet :: jsstring
  is_truncated :: "bool option"
  truncation_reason :: "jsstring option"
  summary :: "jsstring option"

text \<open>
  \<^verbatim>\<open>astPath.parentPath\<close> when it is a variable declarator
  (\<^verbatim>\<open>astPath.parentPath && astPath.parentPath.isVariableDeclarator()\<close>).
\<close>

definition declaratorParent :: "node_info list \<Rightarrow> node_info option" where
  "declaratorParent ancestors =
     (case ancestors of
        [] \<Rightarrow> None
      | parent # _ \<Rightarrow> if ntype parent = js ''VariableDeclarator'' then Some parent else None)"

text \<open>\<^verbatim>\<open>getNodeName\<close> (lines 161-181).\<close>

definition getNodeName :: "node_info \<Rightarrow> node_info list \<Rightarrow> jsstring" where
  "getNodeName node ancestors =
     (case named (id_name node) of
        Some n \<Rightarrow> n
      | None \<Rightarrow>
         (case (case declaratorParent ancestors of
                  None \<Rightarrow> None
                | Some declarator \<Rightarrow> named (id_name declarator)) of
            Some n \<Rightarrow> n
          | None \<Rightarrow>
             (case key node of
                None \<Rightarrow> js ''anonymous''
              | Some k \<Rightarrow>
                 (case named (key_name k) of
                    Some n \<Rightarrow> n
                  | None \<Rightarrow> (case named (key_value k) of Some v \<Rightarrow> v | None \<Rightarrow> js ''anonymous'')))))"

text \<open>The \<^verbatim>\<open>enter\<close> handler of \<^verbatim>\<open>collectImpactedSections\<close> (lines 100-141).\<close>

definition collect_enter ::
  "config \<Rightarrow> int list \<Rightarrow> node_info list \<Rightarrow> node_info \<Rightarrow> candidate walk_state \<Rightarrow> candidate walk_state" where
  "collect_enter cfg addedLines ancestors node st =
     (let st1 = depth_enter cfg st
      in if thrown st1 \<noteq> None then st1
         else if \<not> isTargetNode node then st1
         else case loc node of
                None \<Rightarrow> st1
              | Some (start_l, end_l) \<Rightarrow>
                 (let relevantLines =
                        filter (\<lambda>lineNumber. lineNumber \<ge> start_l \<and> lineNumber \<le> end_l) addedLines
                  in if length relevantLines = 0 then st1
                     else st1\<lparr>sections := sections st1 @
                            [\<lparr>sec_type = ntype node,
                              name = getNodeName node ancestors,
                              start_line = start_l,
                              end_line = end_l,
                              added_lines = relevantLines,
                              start_offset = nstart node,
                              end_offset = nend node,
                              size_lines = end_l - start_l + 1\<rparr>]\<rparr>))"

text \<open>
  \<^verbatim>\<open>collectImpactedSections\<close> (lines 94-156): a depth-limit exception keeps the candidates
  collected so far, any other exception is thrown on (\<open>Inl\<close>).
\<close>

definition collectImpactedSections ::
  "ast \<Rightarrow> jsstring \<Rightarrow> int list \<Rightarrow> config \<Rightarrow> jsstring + candidate list" where
  "collectImpactedSections tree code addedLines cfg =
     (let st = traverse (collect_enter cfg addedLines) depth_exit tree
                 \<lparr>sections = [], currentDepth = 0, thrown = None\<rparr>
      in case thrown st of
           None \<Rightarrow> Inr (sections st)
         | Some message \<Rightarrow>
             if sublist depth_exceeded_text message then Inr (sections st) else Inl message)"

definition added_marker :: jsstring where
  "added_marker = [0x20, 0x2190, 0x20, 0x65B0, 0x589E]"

definition elision :: jsstring where
  "elision = [10, 10] @ js ''...'' @ [10, 10]"

text \<open>\<^verbatim>\<open>extractContextAroundLines\<close> (ast_utils.js, lines 149-169).\<close>

definition extractContextAroundLines ::
  "jsstring \<Rightarrow> int list \<Rightarrow> int \<Rightarrow> int \<Rightarrow> int \<Rightarrow> jsstring" where
  "extractContextAroundLines code addedLines blockStart blockEnd radius =
     (let lines = split_nl code;
          contexts = map (\<lambda>lineNum.
            let contextStart = max blockStart (lineNum - radius);
                contextEnd = min blockEnd (lineNum + radius);
                contextLines = js_slice lines (contextStart - 1) contextEnd
            in join [10] (map (\<lambda>(idx, line).
                 let actualLineNum = contextStart + int idx;
                     marker = (if actualLineNum = lineNum then added_marker else [])
                 in show_int actualLineNum @ js ''| '' @ line @ marker)
                 (enumerate 0 contextLines))) addedLines
      in join elision contexts)"

text \<open>The marker appended to a snippet cut at the character limit (line 199).\<close>

definition char_limit_marker :: "nat \<Rightarrow> jsstring" where
  "char_limit_marker len =
     [10, 10] @ js ''/* ... '' @ [0x4EE3, 0x7801, 0x8FC7, 0x957F, 0x5DF2, 0x622A, 0x65AD] @
     js '' ('' @ [0x603B, 0x957F] @ show_nat len @ [0x5B57, 0x7B26] @ js '') */''"

definition window_summary :: "jsstring \<Rightarrow> int \<Rightarrow> int \<Rightarrow> jsstring" where
  "window_summary what size' radius =
     what @ js ''('' @ show_int size' @ [0x884C] @ js '')'' @
     [0xFF0C, 0x53EA, 0x663E, 0x793A, 0x65B0, 0x589E, 0x884C, 0x5468, 0x56F4] @
     show_int radius @ [0x884C, 0x4E0A, 0x4E0B, 0x6587]"

text \<open>\<^verbatim>\<open>limitSectionSize\<close> (lines 187-238); \<open>CONTEXT_RADIUS\<close> is 8.\<close>

definition limitSectionSize :: "candidate \<Rightarrow> jsstring \<Rightarrow> config \<Rightarrow> impacted_section" where
  "limitSectionSize section code cfg =
     (let snippet' = substring code (start_offset section) (end_offset section)
      in if int (length snippet') > maxSnippetLength cfg then
           \<lparr>sec_type = sec_type section, name = name section,
            start_line = start_line section, end_line = end_line section,
            added_lines = added_lines section,
            snippet = substring snippet' 0 (maxSnippetLength cfg) @ char_limit_marker (length snippet'),
            is_truncated = Some True,
            truncation_reason = Some (js ''char_limit''),
            summary = None\<rparr>
         else if size_lines section > maxBlockSizeLines cfg then
           \<lparr>sec_type = sec_type section, name = name section,
            start_line = start_line section, end_line = end_line section,
            added_lines = added_lines section,
            snippet = extractContextAroundLines code (added_lines section)
                        (start_line section) (end_line section) 8,
            is_truncated = Some True,
            truncation_reason = Some (js ''line_limit''),
            summary = Some (window_summary [0x51FD, 0x6570, 0x8F83, 0x5927] (size_lines section) 8)\<rparr>
         else
           \<lparr>sec_type = sec_type section, name = name section,
            start_line = start_line section, end_line = end_line section,
            added_lines = added_lines section,
            snippet = snippet',
            is_truncated = None, truncation_reason = None, summary = None\<rparr>)"

section \<open>The external collaborators\<close>

text \<open>
  What the extractors get from outside: the cached configuration of \<^verbatim>\<open>getAstConfig\<close>
  (\<open>Inl\<close> the message when loading throws), the file reader \<^verbatim>\<open>readFileSafe\<close>, the Babel
  parser with the plug-in list of ast_context.js and with that of the component
  extractor (\<open>Inl\<close> the message of a thrown error), whether the timer of \<^verbatim>\<open>withTimeout\<close>
  fires before the parser's promise settles, the component compiler when it is installed,
  and the two readings of the clock.
\<close>

record sfc_block =
  content :: jsstring
  loc_start_line :: int
  lang :: "jsstring option"

record sfc_descriptor =
  template :: bool
  script :: "sfc_block option"
  scriptSetup :: "sfc_block option"
  styles :: "nat option"

record sfc_parsed =
  descriptor :: sfc_descriptor
  parse_errors :: nat

record world =
  getAstConfig :: "jsstring + config"
  readFileSafe :: "jsstring \<Rightarrow> jsstring \<Rightarrow> jsstring option"
  parseCode :: "jsstring \<Rightarrow> jsstring + ast"
  parseCode_timer_first :: bool
  parseScript :: "jsstring \<Rightarrow> jsstring + ast"
  loadVueSfcCompiler :: "(jsstring \<Rightarrow> jsstring \<Rightarrow> jsstring + sfc_parsed) option"
  parseSFC_timer_first :: bool
  clock_start :: int
  clock_end :: int

section \<open>Extraction results\<close>

record component_info =
  has_template :: bool
  has_script :: bool
  has_script_setup :: bool
  style_blocks :: nat
  script_lang :: jsstring

record extraction_result =
  impacted_sections :: "impacted_section list"
  errors :: "jsstring list"
  component :: "component_info option"

record final_result = extraction_result +
  parse_time_ms :: int

definition timeout_message :: "jsstring \<Rightarrow> int \<Rightarrow> jsstring" where
  "timeout_message what ms =
     what @ [0x89E3, 0x6790, 0x8D85, 0x65F6] @ js '' (>'' @ show_int ms @ js ''ms)''"

text \<open>\<^verbatim>\<open>extractJsAstContext\<close> (ast_context.js, lines 26-71).\<close>

definition extractJsAstContext ::
  "world \<Rightarrow> jsstring \<Rightarrow> int list \<Rightarrow> jsstring \<Rightarrow> jsstring + extraction_result" where
  "extractJsAstContext w filePath addedLines projectRoot =
     (case getAstConfig w of
        Inl message \<Rightarrow> Inl message
      | Inr cfg \<Rightarrow>
         (case named (readFileSafe w filePath projectRoot) of
            None \<Rightarrow>
              Inr \<lparr>impacted_sections = [], errors = [js ''file_not_readable''], component = None\<rparr>
          | Some code \<Rightarrow>
             (case withTimeout (parseCode w code) (parseCode_timer_first w)
                     (timeout_message (js ''AST'') (timeoutMs cfg)) of
                Inl message \<Rightarrow>
                  Inr \<lparr>impacted_sections = [], errors = [js ''parse_error: '' @ message],
                       component = None\<rparr>
              | Inr tree \<Rightarrow>
                 (case collectImpactedSections tree code addedLines cfg of
                    Inl message \<Rightarrow>
                      Inr \<lparr>impacted_sections = [], errors = [js ''traverse_error: '' @ message],
                           component = None\<rparr>
                  | Inr allSections \<Rightarrow>
                      Inr \<lparr>impacted_sections =
                             map (\<lambda>section. limitSectionSize section code cfg)
                               (selectSmallestSections allSections addedLines),
                           errors = [], component = None\<rparr>))))"

section \<open>The Component Context Extractor (ast_context_vue.js)\<close>

text \<open>
  The objects pushed by \<^verbatim>\<open>collectScriptSections\<close> (lines 144-152) and returned by
  \<^verbatim>\<open>applySectionSizeLimit\<close>: the fields of a Section and \<^verbatim>\<open>size\<close> (\<open>block_size\<close> here).
\<close>

record script_unit = impacted_section +
  block_size :: int

text \<open>\<^verbatim>\<open>detectVueContext\<close> (lines 226-241) and \<^verbatim>\<open>getScriptNodeInfo\<close> (lines 186-221).\<close>

definition detectVueContext :: "node_info list \<Rightarrow> jsstring" where
  "detectVueContext ancestors =
     (case find (\<lambda>p. ntype p = js ''ObjectProperty'') ancestors of
        None \<Rightarrow> []
      | Some objectParent \<Rightarrow>
         (case key objectParent of
            None \<Rightarrow> []
          | Some k \<Rightarrow>
             (case (case named (key_name k) of Some n \<Rightarrow> Some n | None \<Rightarrow> key_value k) of
                None \<Rightarrow> []
              | Some parentKey \<Rightarrow>
                  if parentKey \<in> set [js ''methods'', js ''computed'', js ''watch'', js ''setup'']
                  then js ''vue_'' @ parentKey
                  else [])))"

definition getScriptNodeInfo :: "node_info \<Rightarrow> node_info list \<Rightarrow> jsstring \<times> jsstring" where
  "getScriptNodeInfo node ancestors =
     (case named (id_name node) of
        Some n \<Rightarrow> (n, [])
      | None \<Rightarrow>
         (case declaratorParent ancestors of
            Some declarator \<Rightarrow>
              (case named (id_name declarator) of
                 Some n \<Rightarrow> (n, [])
               | None \<Rightarrow> (js ''anonymous'', []))
          | None \<Rightarrow>
              (case key node of
                  None \<Rightarrow> (js ''anonymous'', [])
                | Some k \<Rightarrow>
                   (let name' = (case named (key_name k) of
                                  Some n \<Rightarrow> n
                                | None \<Rightarrow> (case named (key_value k) of
                                             Some v \<Rightarrow> v
                                           | None \<Rightarrow> js ''anonymous''));
                        context =
                          (if find (\<lambda>p. ntype p = js ''ObjectExpression'') ancestors \<noteq> None \<and>
                              find (\<lambda>p. ntype p = js ''ExportDefaultDeclaration'') ancestors \<noteq> None
                           then detectVueContext ancestors
                           else [])
                    in (name', context)))))"

text \<open>
  The \<^verbatim>\<open>enter\<close> handler of \<^verbatim>\<open>collectScriptSections\<close> (lines 111-153);
  \<^verbatim>\<open>isScriptTargetNode\<close> (lines 172-181) tests the same six kinds as \<open>isTargetNode\<close>.
\<close>

definition isScriptTargetNode :: "node_info \<Rightarrow> bool" where
  "isScriptTargetNode node =
     (ntype node = js ''FunctionDeclaration'' \<or>
      ntype node = js ''FunctionExpression'' \<or>
      ntype node = js ''ArrowFunctionExpression'' \<or>
      ntype node = js ''ClassMethod'' \<or>
      ntype node = js ''ObjectMethod'' \<or>
      ntype node = js ''ClassDeclaration'')"

definition script_enter ::
  "config \<Rightarrow> jsstring \<Rightarrow> int list \<Rightarrow> node_info list \<Rightarrow> node_info \<Rightarrow>
   script_unit walk_state \<Rightarrow> script_unit walk_state" where
  "script_enter cfg scriptContent addedLines ancestors node st =
     (let st1 = depth_enter cfg st
      in if thrown st1 \<noteq> None then st1
         else if \<not> isScriptTargetNode node then st1
         else case loc node of
                None \<Rightarrow> st1
              | Some (start_l, end_l) \<Rightarrow>
                 (let relevantLines =
                        filter (\<lambda>lineNumber. lineNumber \<ge> start_l \<and> lineNumber \<le> end_l) addedLines
                  in if length relevantLines = 0 then st1
                     else (case getScriptNodeInfo node ancestors of
                             (name', context) \<Rightarrow>
                               st1\<lparr>sections := sections st1 @
                                 [\<lparr>sec_type = (if context \<noteq> [] then context else ntype node),
                                   name = name',
                                   start_line = start_l,
                                   end_line = end_l,
                                   added_lines = relevantLines,
                                   snippet = substring scriptContent (nstart node) (nend node),
                                   is_truncated = None,
                                   truncation_reason = None,
                                   summary = None,
                                   block_size = end_l - start_l + 1\<rparr>]\<rparr>)))"

definition collectScriptSections ::
  "ast \<Rightarrow> jsstring \<Rightarrow> int list \<Rightarrow> config \<Rightarrow> jsstring + script_unit list" where
  "collectScriptSections tree scriptContent addedLines cfg =
     (let st = traverse (script_enter cfg scriptContent addedLines) depth_exit tree
                 \<lparr>sections = [], currentDepth = 0, thrown = None\<rparr>
      in case thrown st of
           None \<Rightarrow> Inr (sections st)
         | Some message \<Rightarrow>
             if sublist depth_exceeded_text message then Inr (sections st) else Inl message)"

text \<open>The component extractor's own \<^verbatim>\<open>extractContextAroundLines\<close> (lines 324-344).\<close>

definition extractContextAroundLines_vue ::
  "jsstring \<Rightarrow> int list \<Rightarrow> int \<Rightarrow> int \<Rightarrow> int \<Rightarrow> jsstring" where
  "extractContextAroundLines_vue snippet' addedLines blockStart blockEnd radius =
     (let lines = split_nl snippet';
          contexts = map (\<lambda>lineNum.
            let relativeLineNum = lineNum - blockStart + 1;
                contextStart = max 1 (relativeLineNum - radius);
                contextEnd = min (int (length lines)) (relativeLineNum + radius);
                contextLines = js_slice lines (contextStart - 1) contextEnd
            in join [10] (map (\<lambda>(idx, line).
                 let actualLineNum = blockStart + contextStart - 1 + int idx;
                     marker = (if actualLineNum = lineNum then added_marker else [])
                 in show_int actualLineNum @ js ''| '' @ line @ marker)
                 (enumerate 0 contextLines))) addedLines
      in join elision contexts)"

text \<open>\<^verbatim>\<open>applySectionSizeLimit\<close> (lines 285-319).\<close>

definition applySectionSizeLimit :: "script_unit \<Rightarrow> config \<Rightarrow> script_unit" where
  "applySectionSizeLimit section cfg =
     (if int (length (snippet section)) > maxSnippetLength cfg then
        section\<lparr>snippet := substring (snippet section) 0 (maxSnippetLength cfg) @
                             char_limit_marker (length (snippet section)),
                is_truncated := Some True,
                truncation_reason := Some (js ''char_limit'')\<rparr>
      else if block_size section > maxBlockSizeLines cfg then
        section\<lparr>snippet := extractContextAroundLines_vue (snippet section) (added_lines section)
                             (start_line section) (end_line section) 8,
                is_truncated := Some True,
                truncation_reason := Some (js ''line_limit''),
                summary := Some (window_summary [0x4EE3, 0x7801, 0x5757, 0x8F83, 0x5927]
                                   (block_size section) 8)\<rparr>
      else section)"

text \<open>
  The component extractor's own \<^verbatim>\<open>selectSmallestSections\<close> (lines 246-280), which also
  applies the size limit.
\<close>

fun select_loop_vue ::
  "config \<Rightarrow> int list \<Rightarrow> script_unit list \<Rightarrow> script_unit list \<Rightarrow> int set \<Rightarrow> script_unit list" where
  "select_loop_vue cfg addedLines [] selected coveredLines = selected"
| "select_loop_vue cfg addedLines (section # rest) selected coveredLines =
     (let sectionLines =
            filter (\<lambda>line. line \<ge> start_line section \<and> line \<le> end_line section) addedLines;
          hasUncoveredLines = list_ex (\<lambda>line. line \<notin> coveredLines) sectionLines
      in if hasUncoveredLines
         then select_loop_vue cfg addedLines rest
                (selected @ [applySectionSizeLimit section cfg])
                (coveredLines \<union> set sectionLines)
         else select_loop_vue cfg addedLines rest selected coveredLines)"

definition selectSmallestSections_vue ::
  "config \<Rightarrow> script_unit list \<Rightarrow> int list \<Rightarrow> script_unit list" where
  "selectSmallestSections_vue cfg sections' addedLines =
     (case sections' of
        [] \<Rightarrow> []
      | [only] \<Rightarrow> [applySectionSizeLimit only cfg]
      | _ \<Rightarrow> select_loop_vue cfg addedLines (sort_key block_size sections') [] {})"

text \<open>
  \<^verbatim>\<open>extractScriptContext\<close> (lines 43-100): the remapping of the added lines into the
  Region (lines 64-68) and of the selected units back to the file (lines 87-97).
\<close>

definition adjustAddedLines :: "int list \<Rightarrow> int \<Rightarrow> int list" where
  "adjustAddedLines addedLines scriptStartLine =
     new_Set (map (\<lambda>line. line - scriptStartLine + 1)
                (filter (\<lambda>line. line \<ge> scriptStartLine) addedLines))"

definition remapSection :: "int \<Rightarrow> script_unit \<Rightarrow> impacted_section" where
  "remapSection scriptStartLine section =
     \<lparr>sec_type = sec_type section,
      name = name section,
      start_line = start_line section + scriptStartLine - 1,
      end_line = end_line section + scriptStartLine - 1,
      added_lines = map (\<lambda>l. l + scriptStartLine - 1) (added_lines section),
      snippet = snippet section,
      is_truncated = is_truncated section,
      truncation_reason = truncation_reason section,
      summary = summary section\<rparr>"

record script_context =
  script_sections :: "impacted_section list"
  script_errors :: "jsstring list"

definition extractScriptContext ::
  "world \<Rightarrow> config \<Rightarrow> jsstring \<Rightarrow> int list \<Rightarrow> int \<Rightarrow> script_context" where
  "extractScriptContext w cfg scriptContent addedLines scriptStartLine =
     (case parseScript w scriptContent of
        Inl message \<Rightarrow>
          \<lparr>script_sections = [], script_errors = [js ''script_parse_error: '' @ message]\<rparr>
      | Inr tree \<Rightarrow>
         (let adjustedAddedLines = adjustAddedLines addedLines scriptStartLine
          in if length adjustedAddedLines = 0
             then \<lparr>script_sections = [], script_errors = []\<rparr>
             else (case collectScriptSections tree scriptContent adjustedAddedLines cfg of
                     Inl message \<Rightarrow>
                       \<lparr>script_sections = [],
                        script_errors = [js ''script_traverse_error: '' @ message]\<rparr>
                   | Inr allSections \<Rightarrow>
                       \<lparr>script_sections =
                          map (remapSection scriptStartLine)
                            (selectSmallestSections_vue cfg allSections adjustedAddedLines),
                        script_errors = []\<rparr>)))"

text \<open>
  \<^verbatim>\<open>extractVueAstContext\<close> (lines 350-449). A Region is analysed when it is present and
  its content is not empty; \<^verbatim>\<open>extractScriptContext\<close> catches the parser's and the
  traversal's exceptions itself, so the \<^verbatim>\<open>catch\<close> clauses of lines 421 and 438 have
  nothing to catch here.
\<close>

definition analyseRegion ::
  "world \<Rightarrow> config \<Rightarrow> int list \<Rightarrow> sfc_block option \<Rightarrow> script_context" where
  "analyseRegion w cfg addedLines block =
     (case block of
        None \<Rightarrow> \<lparr>script_sections = [], script_errors = []\<rparr>
      | Some b \<Rightarrow>
          if content b = [] then \<lparr>script_sections = [], script_errors = []\<rparr>
          else extractScriptContext w cfg (content b) addedLines (loc_start_line b))"

definition extractVueAstContext ::
  "world \<Rightarrow> jsstring \<Rightarrow> int list \<Rightarrow> jsstring \<Rightarrow> jsstring + extraction_result" where
  "extractVueAstContext w filePath addedLines projectRoot =
     (case getAstConfig w of
        Inl message \<Rightarrow> Inl message
      | Inr cfg \<Rightarrow>
         (case loadVueSfcCompiler w of
            None \<Rightarrow>
              Inr \<lparr>impacted_sections = [], errors = [js ''vue_sfc_compiler_not_installed''],
                   component = None\<rparr>
          | Some parseSFC \<Rightarrow>
             (case named (readFileSafe w filePath projectRoot) of
                None \<Rightarrow>
                  Inr \<lparr>impacted_sections = [], errors = [js ''file_not_readable''],
                       component = None\<rparr>
              | Some code \<Rightarrow>
                 (case withTimeout (parseSFC code filePath) (parseSFC_timer_first w)
                         (timeout_message (js ''Vue SFC'') (timeoutMs cfg)) of
                    Inl message \<Rightarrow>
                      Inr \<lparr>impacted_sections = [], errors = [js ''sfc_parse_error: '' @ message],
                           component = None\<rparr>
                  | Inr parsed \<Rightarrow>
                     (let d = descriptor parsed;
                          errors0 = (if parse_errors parsed > 0
                                     then [js ''sfc_parse_errors: '' @ show_nat (parse_errors parsed)]
                                     else []);
                          info = \<lparr>has_template = template d,
                                  has_script = (script d \<noteq> None),
                                  has_script_setup = (scriptSetup d \<noteq> None),
                                  style_blocks = (case styles d of None \<Rightarrow> 0 | Some n \<Rightarrow> n),
                                  script_lang =
                                    (case script d of
                                       None \<Rightarrow> js ''js''
                                     | Some b \<Rightarrow> (case named (lang b) of
                                                    None \<Rightarrow> js ''js''
                                                  | Some l \<Rightarrow> l))\<rparr>;
                          scriptResult = analyseRegion w cfg addedLines (script d);
                          setupResult = analyseRegion w cfg addedLines (scriptSetup d);
                          allSections = script_sections scriptResult @ script_sections setupResult
                      in Inr \<lparr>impacted_sections = sort_key start_line allSections,
                              errors = errors0 @ script_errors scriptResult @ script_errors setupResult,
                              component = Some info\<rparr>)))))"

section \<open>The Dispatch Layer (ast_context.js, extractAstContext)\<close>

text \<open>
  \<^verbatim>\<open>/\.(js|jsx|ts|tsx)$/.test(filePath)\<close> and \<^verbatim>\<open>/\.vue$/.test(filePath)\<close>: the path ends
  with one of the extensions.
\<close>

definition is_script_path :: "jsstring \<Rightarrow> bool" where
  "is_script_path filePath =
     (suffix (js ''.js'') filePath \<or> suffix (js ''.jsx'') filePath \<or>
      suffix (js ''.ts'') filePath \<or> suffix (js ''.tsx'') filePath)"

definition is_vue_path :: "jsstring \<Rightarrow> bool" where
  "is_vue_path filePath = suffix (js ''.vue'') filePath"

text \<open>The \<^verbatim>\<open>try\<close> block of lines 250-261 and the \<^verbatim>\<open>catch\<close> clause of lines 262-269.\<close>

definition dispatch :: "world \<Rightarrow> jsstring \<Rightarrow> int list \<Rightarrow> jsstring \<Rightarrow> jsstring + extraction_result" where
  "dispatch w filePath addedLines projectRoot =
     (if is_script_path filePath then extractJsAstContext w filePath addedLines projectRoot
      else if is_vue_path filePath then extractVueAstContext w filePath addedLines projectRoot
      else Inr \<lparr>impacted_sections = [], errors = [js ''unsupported_file_type''],
                component = None\<rparr>)"

definition try_catch :: "jsstring + 'a \<Rightarrow> (jsstring \<Rightarrow> jsstring + 'a) \<Rightarrow> jsstring + 'a" where
  "try_catch body handler = (case body of Inl message \<Rightarrow> handler message | Inr v \<Rightarrow> Inr v)"

definition extractAstContext ::
  "world \<Rightarrow> jsstring \<Rightarrow> int list \<Rightarrow> jsstring \<Rightarrow> jsstring + final_result" where
  "extractAstContext w filePath addedLines projectRoot =
     (case try_catch (dispatch w filePath addedLines projectRoot)
             (\<lambda>message. Inr \<lparr>impacted_sections = [],
                              errors = [js ''unexpected_error: '' @ message],
                              component = None\<rparr>) of
        Inl message \<Rightarrow> Inl message
      | Inr result \<Rightarrow>
          Inr \<lparr>impacted_sections = impacted_sections result,
               errors = errors result,
               component = component result,
               parse_time_ms = clock_end w - clock_start w\<rparr>)"

section \<open>Measures on lists of units\<close>

text \<open>The units of a list that hold the line \<open>l\<close> among their \<open>added_lines\<close>.\<close>

definition covering_units :: "int \<Rightarrow> ('a unit_fields_scheme) list \<Rightarrow> ('a unit_fields_scheme) list" where
  "covering_units l us = filter (\<lambda>u. l \<in> set (added_lines u)) us"

text \<open>The units of a list that are strictly smaller than the unit \<open>s\<close>.\<close>

definition smaller_units :: "candidate \<Rightarrow> candidate list \<Rightarrow> candidate list" where
  "smaller_units s us = filter (\<lambda>t. size_lines t < size_lines s) us"

section \<open>Well-formed units\<close>

text \<open>
  A unit whose \<open>added_lines\<close> is not empty and lies between its \<open>start_line\<close> and its
  \<open>end_line\<close>.
\<close>

definition section_ok :: "'a unit_fields_scheme \<Rightarrow> bool" where
  "section_ok u =
     (added_lines u \<noteq> [] \<and>
      list_all (\<lambda>l. start_line u \<le> l \<and> l \<le> end_line u) (added_lines u))"

text \<open>
  A unit whose \<open>added_lines\<close> is the part of the added-line set inside its line range,
  and is not empty.
\<close>

definition unit_of :: "int list \<Rightarrow> 'a unit_fields_scheme \<Rightarrow> bool" where
  "unit_of addedLines u =
     (added_lines u \<noteq> [] \<and>
      added_lines u = filter (\<lambda>l. l \<ge> start_line u \<and> l \<le> end_line u) addedLines)"

section \<open>Reading a result\<close>

text \<open>The Sections of an outcome; an exception carries none.\<close>

definition result_sections :: "jsstring + 'a extraction_result_scheme \<Rightarrow> impacted_section list" where
  "result_sections outcome = (case outcome of Inl message \<Rightarrow> [] | Inr r \<Rightarrow> impacted_sections r)"

text \<open>The line count of a unit, from its line range.\<close>

definition line_count :: "'a unit_fields_scheme \<Rightarrow> int" where
  "line_count u = end_line u - start_line u + 1"

section \<open>Examples\<close>

text \<open>Example units: a class on lines 1-30 and a function on lines 8-20.\<close>

definition ex_class :: candidate where
  "ex_class = \<lparr>sec_type = js ''ClassDeclaration'', name = js ''Widget'',
     start_line = 1, end_line = 30, added_lines = [11, 25],
     start_offset = 0, end_offset = 900, size_lines = 30\<rparr>"

definition ex_function :: candidate where
  "ex_function = \<lparr>sec_type = js ''ClassMethod'', name = js ''render'',
     start_line = 8, end_line = 20, added_lines = [11],
     start_offset = 200, end_offset = 600, size_lines = 13\<rparr>"

text \<open>
  A diff that deletes the line \<^verbatim>\<open>--count;\<close> and adds \<^verbatim>\<open>count -= 1;\<close> at line 5 of the new
  file.
\<close>

definition ex_diff_decrement :: jsstring where
  "ex_diff_decrement =
     join [10] [js ''@@ -5,1 +5,1 @@'', js ''---count;'', js ''+count -= 1;'']"

text \<open>
  A diff whose second hunk has the header of a combined diff, which the header expression
  does not match.
\<close>

definition ex_diff_combined :: jsstring where
  "ex_diff_combined =
     join [10] [js ''@@ -1,1 +1,2 @@'', js '' a'', js ''+b'',
                js ''@@@ -7,1 -7,1 +9,2 @@@'', js ''+c'']"

text \<open>A limit of three characters and a unit of eight characters and three lines.\<close>

definition ex_config :: config where
  "ex_config = \<lparr>maxSnippetLength = 3, maxBlockSizeLines = 1, maxDepth = 60, timeoutMs = 8000\<rparr>"

text \<open>A limit of minus five characters, as \<^verbatim>\<open>AST_MAX_SNIPPET_LENGTH=-5\<close> gives it.\<close>

definition ex_negative_limit :: config where
  "ex_negative_limit =
     \<lparr>maxSnippetLength = - 5, maxBlockSizeLines = 1, maxDepth = 60, timeoutMs = 8000\<rparr>"

definition ex_long :: candidate where
  "ex_long = \<lparr>sec_type = js ''FunctionDeclaration'', name = js ''f'',
     start_line = 1, end_line = 3, added_lines = [2],
     start_offset = 0, end_offset = 8, size_lines = 3\<rparr>"

definition ex_long_script :: script_unit where
  "ex_long_script = \<lparr>sec_type = js ''FunctionDeclaration'', name = js ''f'',
     start_line = 1, end_line = 3, added_lines = [2],
     snippet = js ''abcdefgh'', is_truncated = None, truncation_reason = None, summary = None,
     block_size = 3\<rparr>"

text \<open>
  A script file with a function on lines 1-5 and a function on lines 7-9, the tree Babel
  gives for it (the nodes below the functions left out), and a diff that added lines 2
  and 8.
\<close>

definition ex_code :: jsstring where
  "ex_code = join [10]
     [js ''function big() {'', js ''  a();'', js ''  b();'', js ''  c();'', js ''}'', [],
      js ''function small() {'', js ''  d();'', js ''}'']"

definition leaf :: "string \<Rightarrow> int \<Rightarrow> int \<Rightarrow> int \<Rightarrow> int \<Rightarrow> jsstring option \<Rightarrow> node_info" where
  "leaf t l1 l2 p1 p2 n =
     \<lparr>ntype = js t, loc = Some (l1, l2), nstart = p1, nend = p2, id_name = n, key = None\<rparr>"

definition ex_tree :: ast where
  "ex_tree =
     Node (leaf ''File'' 1 9 0 68 None)
       [Node (leaf ''Program'' 1 9 0 68 None)
          [Node (leaf ''FunctionDeclaration'' 1 5 0 39 (Some (js ''big'')))
             [Node (leaf ''Identifier'' 1 1 9 12 None) [],
              Node (leaf ''BlockStatement'' 1 5 15 39 None) []],
           Node (leaf ''FunctionDeclaration'' 7 9 41 68 (Some (js ''small'')))
             [Node (leaf ''Identifier'' 7 7 50 55 None) [],
              Node (leaf ''BlockStatement'' 7 9 58 68 None) []]]]"

definition ex_defaults :: config where
  "ex_defaults = \<lparr>maxSnippetLength = 10000, maxBlockSizeLines = 150, maxDepth = 60,
                   timeoutMs = 8000\<rparr>"

text \<open>
  A component file whose script block starts on line 2 and holds the method \<open>greet\<close> of
  the \<open>methods\<close> option on lines 5-7 of the file, and the tree Babel gives for the block.
\<close>

definition ex_script :: jsstring where
  "ex_script = join [10]
     [[], js ''export default {'', js ''  methods: {'', js ''    greet() {'',
      js ''      return 1;'', js ''    }'', js ''  }'', js ''}'', []]"

definition ex_script_tree :: ast where
  "ex_script_tree =
     Node (leaf ''File'' 1 9 0 73 None)
       [Node (leaf ''Program'' 1 9 0 73 None)
          [Node (leaf ''ExportDefaultDeclaration'' 2 8 1 72 None)
             [Node (leaf ''ObjectExpression'' 2 8 16 72 None)
                [Node ((leaf ''ObjectProperty'' 3 7 20 70 None)
                         \<lparr>key := Some \<lparr>key_name = Some (js ''methods''), key_value = None\<rparr>\<rparr>)
                   [Node (leaf ''Identifier'' 3 3 20 27 None) [],
                    Node (leaf ''ObjectExpression'' 3 7 29 70 None)
                      [Node ((leaf ''ObjectMethod'' 4 6 35 66 None)
                               \<lparr>key := Some \<lparr>key_name = Some (js ''greet''), key_value = None\<rparr>\<rparr>)
                         [Node (leaf ''Identifier'' 4 4 35 40 None) [],
                          Node (leaf ''BlockStatement'' 4 6 43 66 None) []]]]]]]]"

definition ex_sfc :: sfc_parsed where
  "ex_sfc =
     \<lparr>descriptor =
        \<lparr>template = True,
         script = Some \<lparr>content = ex_script, loc_start_line = 2, lang = None\<rparr>,
         scriptSetup = None,
         styles = Some 0\<rparr>,
      parse_errors = 0\<rparr>"

text \<open>
  The collaborators for the two files, and those of a run whose configuration cannot be
  loaded.
\<close>

definition ex_world :: world where
  "ex_world =
     \<lparr>getAstConfig = Inr ex_defaults,
      readFileSafe = (\<lambda>filePath projectRoot.
         if filePath = js ''src/a.js'' then Some ex_code
         else if filePath = js ''src/App.vue''
         then Some (js ''<template/>'' @ [10] @ js ''<script>'' @ ex_script @ js ''</script>'')
         else None),
      parseCode = (\<lambda>code. Inr ex_tree),
      parseCode_timer_first = False,
      parseScript = (\<lambda>code. Inr ex_script_tree),
      loadVueSfcCompiler = Some (\<lambda>code filename. Inr ex_sfc),
      parseSFC_timer_first = False,
      clock_start = 1000,
      clock_end = 1012\<rparr>"

definition ex_world_no_config :: world where
  "ex_world_no_config = ex_world\<lparr>getAstConfig := Inl (js ''missing GITLAB_TOKEN'')\<rparr>"

text \<open>The candidates of the script file and the unit of the component file.\<close>

definition ex_big :: candidate where
  "ex_big = \<lparr>sec_type = js ''FunctionDeclaration'', name = js ''big'',
     start_line = 1, end_line = 5, added_lines = [2],
     start_offset = 0, end_offset = 39, size_lines = 5\<rparr>"

definition ex_small :: candidate where
  "ex_small = \<lparr>sec_type = js ''FunctionDeclaration'', name = js ''small'',
     start_line = 7, end_line = 9, added_lines = [8],
     start_offset = 41, end_offset = 68, size_lines = 3\<rparr>"

definition ex_greet :: script_unit where
  "ex_greet = \<lparr>sec_type = js ''vue_methods'', name = js ''greet'',
     start_line = 4, end_line = 6, added_lines = [5],
     snippet = js ''greet() {'' @ [10] @ js ''      return 1;'' @ [10] @ js ''    }'',
     is_truncated = None, truncation_reason = None, summary = None, block_size = 3\<rparr>"

section \<open>Strings\<close>

lemma unat_of_char: "unat (of_char c :: 16 word) = of_char c"
proof -
  have "(of_char c :: nat) < 65536"
    using nat_of_char_less_256 [of c] by linarith
  then have "unat (of_nat (of_char c) :: 16 word) = of_char c"
    by (simp add: unat_of_nat)
  then show ?thesis
    by (simp add: of_nat_of_char)
qed

lemma of_char_word_inject: "((of_char c :: 16 word) = of_char d) = (c = d)"
proof
  assume "(of_char c :: 16 word) = of_char d"
  then have "unat (of_char c :: 16 word) = unat (of_char d :: 16 word)" by simp
  then show "c = d" by (simp only: unat_of_char of_char_eq_iff)
qed simp

lemma js_inject: "(js s = js t) = (s = t)"
  unfolding js_def by (rule inj_map_eq_map) (simp add: inj_on_def of_char_word_inject)

lemma js_eq_Nil: "(js s = []) = (s = [])"
  by (simp add: js_def)

lemma suffix_js: "suffix (js s) (js t) = suffix s t"
  unfolding js_def
  by (metis (no_types, lifting) inj_def of_char_word_inject map_mono_suffix suffix_def
      append_eq_map_conv inj_map_eq_map)

section \<open>Properties of the Selector\<close>

lemma lines_of_simps:
  "lines_of [] = {}"
  "lines_of (u # us) = set (added_lines u) \<union> lines_of us"
  "lines_of (us @ vs) = lines_of us \<union> lines_of vs"
  by (auto simp: lines_of_def)

lemma lines_of_set_cong: "set us = set vs \<Longrightarrow> lines_of us = lines_of vs"
  by (simp add: lines_of_def)

lemma select_loop_Cons:
  "select_loop (x # xs) sel cov =
     (if \<exists>l \<in> set (added_lines x). l \<notin> cov
      then select_loop xs (sel @ [x]) (cov \<union> set (added_lines x))
      else select_loop xs sel cov)"
  by (auto simp: Let_def filter_empty_conv)

lemma select_loop_acc:
  "select_loop xs sel cov = sel @ select_loop xs [] cov"
proof (induction xs arbitrary: sel cov)
  case Nil
  show ?case by simp
next
  case (Cons x xs)
  show ?case
    using Cons.IH [of "sel @ [x]"] Cons.IH [of "[x]"] Cons.IH [of sel cov]
    by (simp add: select_loop_Cons del: select_loop.simps)
qed

lemma select_loop_lines:
  "lines_of (select_loop xs [] cov) \<union> cov = lines_of xs \<union> cov"
proof (induction xs arbitrary: cov)
  case Nil
  show ?case by (simp add: lines_of_simps)
next
  case (Cons x xs)
  show ?case
  proof (cases "\<exists>l \<in> set (added_lines x). l \<notin> cov")
    case True
    then have "select_loop (x # xs) [] cov = x # select_loop xs [] (cov \<union> set (added_lines x))"
      using select_loop_acc [of xs "[x]"] by (simp add: select_loop_Cons del: select_loop.simps)
    then show ?thesis
      using Cons.IH [of "cov \<union> set (added_lines x)"] by (auto simp: lines_of_simps)
  next
    case False
    then have "select_loop (x # xs) [] cov = select_loop xs [] cov"
      by (simp add: select_loop_Cons del: select_loop.simps)
    then show ?thesis
      using Cons.IH [of cov] False by (auto simp: lines_of_simps)
  qed
qed

lemma select_loop_covers:
  "lines_of (select_loop (sort_key size_lines cands) [] {}) = lines_of cands"
proof -
  have "lines_of (select_loop (sort_key size_lines cands) [] {})
      = lines_of (sort_key size_lines cands)"
    using select_loop_lines [of "sort_key size_lines cands" "{}"] by simp
  also have "\<dots> = lines_of cands"
    by (rule lines_of_set_cong) simp
  finally show ?thesis .
qed

text \<open>
  C1 (coverage completeness): for every list of candidates and every added-line set,
  the union of the \<open>added_lines\<close> of the units returned by \<open>selectSmallestSections\<close>
  is the union of the \<open>added_lines\<close> of all the candidates.
\<close>

theorem selectSmallestSections_coverage:
  "lines_of (selectSmallestSections cands addedLines) = lines_of cands"
proof (cases "length cands = 0 \<or> length cands = 1")
  case True
  then show ?thesis
    by (auto simp: selectSmallestSections_def)
next
  case False
  then have "selectSmallestSections cands addedLines
      = select_loop (sort_key size_lines cands) [] {}"
    by (simp add: selectSmallestSections_def)
  then show ?thesis
    by (simp add: select_loop_covers)
qed

theorem selectSmallestSections_coverage_witness:
  "lines_of (selectSmallestSections [ex_class, ex_function] [11, 25]) = {11, 25}"
  using selectSmallestSections_coverage [of "[ex_class, ex_function]" "[11, 25]"]
  by (auto simp: lines_of_simps ex_class_def ex_function_def)

lemma ex_select: "selectSmallestSections [ex_class, ex_function] [11, 25] = [ex_function, ex_class]"
  by (simp add: selectSmallestSections_def ex_class_def ex_function_def)

text \<open>
  C2 as stated (every added line of a candidate is in the \<open>added_lines\<close> of exactly one
  selected unit) fails: line 11 lies in the function and in the class around it, the
  class is selected for line 25, and both selected units list line 11.
\<close>

theorem unique_coverage_counterexample:
  "11 \<in> lines_of [ex_class, ex_function] \<and>
   length (covering_units 11 (selectSmallestSections [ex_class, ex_function] [11, 25])) = 2"
  by (simp add: ex_select) (simp add: covering_units_def lines_of_def ex_class_def ex_function_def)

lemma select_loop_subset: "set (select_loop xs [] cov) \<subseteq> set xs"
proof (induction xs arbitrary: cov)
  case Nil
  show ?case by simp
next
  case (Cons x xs)
  show ?case
    using Cons.IH [of cov] Cons.IH [of "cov \<union> set (added_lines x)"] select_loop_acc [of xs "[x]"]
    by (auto simp: select_loop_Cons simp del: select_loop.simps)
qed

lemma select_loop_count:
  "length (filter P (select_loop xs [] cov)) \<le> length (filter P xs)"
proof (induction xs arbitrary: cov)
  case Nil
  show ?case by simp
next
  case (Cons x xs)
  show ?case
    using Cons.IH [of cov] Cons.IH [of "cov \<union> set (added_lines x)"] select_loop_acc [of xs "[x]"]
    by (auto simp: select_loop_Cons le_SucI simp del: select_loop.simps)
qed

lemma covering_units_nonempty:
  "l \<in> lines_of us \<Longrightarrow> 1 \<le> length (covering_units l us)"
  by (induction us) (auto simp: lines_of_simps covering_units_def)

text \<open>
  C2, amended: every added line present in at least one candidate is in the
  \<open>added_lines\<close> of at least one selected unit, and of no more selected units than there
  are candidates that hold it.
\<close>

theorem selectSmallestSections_covers_at_least_once:
  assumes "l \<in> lines_of cands"
  shows "1 \<le> length (covering_units l (selectSmallestSections cands addedLines)) \<and>
         length (covering_units l (selectSmallestSections cands addedLines))
           \<le> length (covering_units l cands)"
proof
  show "1 \<le> length (covering_units l (selectSmallestSections cands addedLines))"
  proof (rule covering_units_nonempty)
    have "lines_of (selectSmallestSections cands addedLines) = lines_of cands"
      using select_loop_covers [of cands]
      by (cases "length cands = 0 \<or> length cands = 1") (auto simp: selectSmallestSections_def)
    with assms show "l \<in> lines_of (selectSmallestSections cands addedLines)" by simp
  qed
next
  let ?P = "\<lambda>u::candidate. l \<in> set (added_lines u)"
  have "length (filter ?P (select_loop (sort_key size_lines cands) [] {}))
      \<le> length (filter ?P (sort_key size_lines cands))"
    by (rule select_loop_count)
  also have "\<dots> = length (filter ?P cands)"
    by (simp add: filter_sort)
  finally show "length (covering_units l (selectSmallestSections cands addedLines))
           \<le> length (covering_units l cands)"
    by (simp add: selectSmallestSections_def covering_units_def)
qed

theorem selectSmallestSections_covers_witness:
  "11 \<in> lines_of [ex_class, ex_function] \<and>
   1 \<le> length (covering_units 11 (selectSmallestSections [ex_class, ex_function] [11, 25])) \<and>
   length (covering_units 11 (selectSmallestSections [ex_class, ex_function] [11, 25]))
     \<le> length (covering_units 11 [ex_class, ex_function])"
  using selectSmallestSections_covers_at_least_once [of 11 "[ex_class, ex_function]" "[11, 25]"]
  by (simp add: lines_of_simps ex_class_def ex_function_def)

lemma select_loop_minimal:
  "sorted (map size_lines xs) \<Longrightarrow> s \<in> set (select_loop xs [] cov) \<Longrightarrow>
   \<exists>l \<in> set (added_lines s). l \<notin> cov \<and> l \<notin> lines_of (smaller_units s (select_loop xs [] cov))"
proof (induction xs arbitrary: cov)
  case Nil
  then show ?case by simp
next
  case (Cons x xs)
  have srt: "sorted (map size_lines xs)" and le: "\<forall>y \<in> set xs. size_lines x \<le> size_lines y"
    using Cons.prems(1) by auto
  show ?case
  proof (cases "\<exists>l \<in> set (added_lines x). l \<notin> cov")
    case False
    then have eq: "select_loop (x # xs) [] cov = select_loop xs [] cov"
      by (simp add: select_loop_Cons del: select_loop.simps)
    show ?thesis
      using Cons.IH [OF srt, of cov] Cons.prems(2) unfolding eq by simp
  next
    case True
    let ?cov = "cov \<union> set (added_lines x)"
    let ?R = "select_loop xs [] ?cov"
    have eq: "select_loop (x # xs) [] cov = x # ?R"
      using True select_loop_acc [of xs "[x]"] by (simp add: select_loop_Cons del: select_loop.simps)
    have big: "\<forall>y \<in> set ?R. size_lines x \<le> size_lines y"
      using le select_loop_subset [of xs ?cov] by blast
    show ?thesis
    proof (cases "s \<in> set ?R")
      case True
      then obtain l where l: "l \<in> set (added_lines s)" "l \<notin> ?cov"
          "l \<notin> lines_of (smaller_units s ?R)"
        using Cons.IH [OF srt, of ?cov] by blast
      have "lines_of (smaller_units s (x # ?R)) \<subseteq> set (added_lines x) \<union> lines_of (smaller_units s ?R)"
        by (auto simp: smaller_units_def lines_of_simps)
      with l show ?thesis unfolding eq by blast
    next
      case False
      then have sx: "s = x" using Cons.prems(2) unfolding eq by simp
      have "smaller_units x (x # ?R) = []"
        using big by (auto simp: smaller_units_def filter_empty_conv)
      then show ?thesis
        using \<open>\<exists>l \<in> set (added_lines x). l \<notin> cov\<close> unfolding eq sx by (simp add: lines_of_simps)
    qed
  qed
qed

text \<open>
  C9 (minimality): no unit returned by \<open>selectSmallestSections\<close> has its \<open>added_lines\<close>
  fully contained in the union of the \<open>added_lines\<close> of the returned units of strictly
  smaller size. A candidate unit holds at least one added line (the traversal pushes no
  other); this is needed only when there is a single candidate, which is returned
  without the covering pass.
\<close>

theorem selectSmallestSections_minimal:
  assumes "length cands \<noteq> 1 \<or> (\<forall>c \<in> set cands. added_lines c \<noteq> [])"
    and "s \<in> set (selectSmallestSections cands addedLines)"
  shows "\<not> set (added_lines s) \<subseteq>
           lines_of (smaller_units s (selectSmallestSections cands addedLines))"
proof (cases "length cands = 1")
  case True
  then obtain c where c: "cands = [c]" by (cases cands) auto
  then have "s = c" "added_lines c \<noteq> []"
    using assms by (auto simp: selectSmallestSections_def)
  then obtain l where "l \<in> set (added_lines s)" by (cases "added_lines c") auto
  then show ?thesis
    using c \<open>s = c\<close> by (auto simp: selectSmallestSections_def smaller_units_def lines_of_simps)
next
  case False
  then have sel: "selectSmallestSections cands addedLines
      = select_loop (sort_key size_lines cands) [] {}"
    using assms(2) by (auto simp: selectSmallestSections_def)
  have "sorted (map size_lines (sort_key size_lines cands))"
    by (rule sorted_sort_key)
  from select_loop_minimal [OF this, of s "{}"] assms(2)
  show ?thesis unfolding sel by blast
qed

theorem selectSmallestSections_minimal_witness:
  "ex_function \<in> set (selectSmallestSections [ex_class, ex_function] [11, 25]) \<and>
   ex_class \<in> set (selectSmallestSections [ex_class, ex_function] [11, 25]) \<and>
   \<not> set (added_lines ex_class) \<subseteq>
      lines_of (smaller_units ex_class (selectSmallestSections [ex_class, ex_function] [11, 25]))"
  using selectSmallestSections_minimal [of "[ex_class, ex_function]" ex_class "[11, 25]"]
  by (simp add: ex_select)

lemma selectSmallestSections_subset:
  "set (selectSmallestSections cands addedLines) \<subseteq> set cands"
  using select_loop_subset [of "sort_key size_lines cands" "{}"]
  by (auto simp: selectSmallestSections_def)

lemma select_loop_sorted:
  "sorted (map size_lines xs) \<Longrightarrow> sorted (map size_lines (select_loop xs [] cov))"
proof (induction xs arbitrary: cov)
  case Nil
  show ?case by simp
next
  case (Cons x xs)
  have srt: "sorted (map size_lines xs)" and le: "\<forall>y \<in> set xs. size_lines x \<le> size_lines y"
    using Cons.prems by auto
  show ?case
  proof (cases "\<exists>l \<in> set (added_lines x). l \<notin> cov")
    case False
    then show ?thesis
      using Cons.IH [OF srt, of cov] by (simp add: select_loop_Cons del: select_loop.simps)
  next
    case True
    let ?R = "select_loop xs [] (cov \<union> set (added_lines x))"
    have "select_loop (x # xs) [] cov = x # ?R"
      using True select_loop_acc [of xs "[x]"] by (simp add: select_loop_Cons del: select_loop.simps)
    moreover have "\<forall>y \<in> set ?R. size_lines x \<le> size_lines y"
      using le select_loop_subset [of xs "cov \<union> set (added_lines x)"] by blast
    ultimately show ?thesis
      using Cons.IH [OF srt, of "cov \<union> set (added_lines x)"] by simp
  qed
qed

lemma selectSmallestSections_sorted:
  "sorted (map size_lines (selectSmallestSections cands addedLines))"
proof (cases "length cands = 0 \<or> length cands = 1")
  case True
  then show ?thesis
    by (cases cands) (auto simp: selectSmallestSections_def)
next
  case False
  then show ?thesis
    using select_loop_sorted [of "sort_key size_lines cands" "{}"]
    by (simp add: selectSmallestSections_def)
qed

section \<open>Properties of the Line-Map Builder\<close>

lemmas diff_eval = js_def parseDiffNewlineMap_def addedLineSet_def new_Set_def
  hunk_header_at_def match_lit_def match_digits_def match_opt_len_def is_digit_def parseInt_def
  spec_addedLineSet_def headers_parse_def

text \<open>
  C3 (the Added-Line Set is the set of new-file line numbers of the \<open>+\<close> lines, for a
  diff whose headers all parse) fails on the code where a deleted line begins with
  \<open>--\<close>: the loop counts the line \<open>---count;\<close> as context, so the added line, line 5 of
  the new file, is reported as line 6.
\<close>

theorem addedLineSet_after_deleted_dashes:
  "headers_parse ex_diff_decrement \<and>
   parseDiffNewlineMap ex_diff_decrement = [(3, 6)] \<and>
   addedLineSet ex_diff_decrement = [6] \<and>
   spec_addedLineSet ex_diff_decrement = [5]"
  by (simp add: ex_diff_decrement_def diff_eval)

text \<open>
  The numbered diff of the same module puts the same added line at line 5 and nothing at
  line 6.
\<close>

lemma addLineNumbersToDiff_after_deleted_dashes:
  "allNewLinesMap (addLineNumbersToDiff ex_diff_decrement) 5 = Some (js ''+count -= 1;'') \<and>
   allNewLinesMap (addLineNumbersToDiff ex_diff_decrement) 6 = None"
  by code_simp

text \<open>A matched group is a non-empty string of digits, so its value is not negative.\<close>

lemma match_digits_digits:
  "match_digits s = Some (ds, r) \<Longrightarrow> ds \<noteq> [] \<and> list_all is_digit ds"
  by (auto simp: match_digits_def Let_def list_all_iff split: if_splits dest: set_takeWhileD)

lemma hunk_header_at_digits:
  "hunk_header_at s = Some g \<Longrightarrow> g \<noteq> [] \<and> list_all is_digit g"
  using match_digits_digits by (fastforce simp: hunk_header_at_def split: option.splits)

lemma hunk_header_exec_digits:
  "hunk_header_exec s = Some g \<Longrightarrow> g \<noteq> [] \<and> list_all is_digit g"
proof (induction s)
  case Nil
  then show ?case using hunk_header_at_digits [of "[]" g] by simp
next
  case (Cons c cs)
  then show ?case
    using hunk_header_at_digits [of "c # cs" g] by (auto split: option.splits)
qed

lemma digit_value: "is_digit c \<Longrightarrow> 0 \<le> uint c - 48"
  by (simp add: is_digit_def word_le_def)

lemma parseInt_fold_nonneg:
  "0 \<le> n \<Longrightarrow> list_all is_digit ds \<Longrightarrow> 0 \<le> foldl (\<lambda>n c. 10 * n + (uint c - 48)) n ds"
proof (induction ds arbitrary: n)
  case Nil
  then show ?case by simp
next
  case (Cons d ds)
  have "0 \<le> 10 * n + (uint d - 48)"
    using Cons.prems digit_value [of d] by simp
  then show ?case
    using Cons.IH [of "10 * n + (uint d - 48)"] Cons.prems by simp
qed

lemma parseInt_nonneg: "list_all is_digit ds \<Longrightarrow> 0 \<le> parseInt ds"
  unfolding parseInt_def by (rule parseInt_fold_nonneg) simp_all

lemma plus_not_minus: "prefix (js ''+'') line \<Longrightarrow> \<not> prefix (js ''-'') line"
  by (cases line) (simp_all add: js_def)

lemma parse_loop_acc:
  "parse_loop lines i cur m = m @ parse_loop lines i cur []"
proof (induction lines arbitrary: i cur m)
  case Nil
  show ?case by simp
next
  case (Cons line rest)
  show ?case
    using Cons.IH [of "i + 1" _ m] Cons.IH [of "i + 1" _ "m @ [(i + 1, cur)]"]
      Cons.IH [of "i + 1" _ "[(i + 1, cur)]"]
    by (simp split: option.splits)
qed

lemma parse_loop_follows_spec:
  "plain_hunk_lines lines (cur \<noteq> - 1) \<Longrightarrow> cur = - 1 \<or> 0 \<le> cur \<Longrightarrow>
   map snd (parse_loop lines i cur []) = spec_new_lines lines (if cur = - 1 then None else Some cur)"
proof (induction lines arbitrary: i cur)
  case Nil
  show ?case by simp
next
  case (Cons line rest)
  show ?case
  proof (cases "prefix (js ''@@'') line")
    case True
    with Cons.prems obtain g where g: "hunk_header_exec line = Some g" and rest: "plain_hunk_lines rest True"
      by auto
    have pos: "g \<noteq> []" "0 \<le> parseInt g"
      using hunk_header_exec_digits [OF g] parseInt_nonneg by auto
    then have "parseInt g \<noteq> - 1" by simp
    with rest have "map snd (parse_loop rest (i + 1) (parseInt g) [])
        = spec_new_lines rest (Some (parseInt g))"
      using Cons.IH [of "parseInt g" "i + 1"] pos by simp
    then show ?thesis
      using True g pos by simp
  next
    case False
    note not_header = this
    show ?thesis
    proof (cases "cur = - 1")
      case True
      then have "plain_hunk_lines rest (cur \<noteq> - 1)"
        using Cons.prems not_header by simp
      then show ?thesis
        using Cons.IH [of cur "i + 1"] True not_header by simp
    next
      case False
      then have cur: "0 \<le> cur" "cur + 1 \<noteq> - 1" and rest: "plain_hunk_lines rest True"
        and plain: "\<not> prefix (js ''---'') line" "\<not> prefix (js ''+++'') line"
        using Cons.prems not_header by auto
      have ih: "map snd (parse_loop rest (i + 1) (cur + 1) []) = spec_new_lines rest (Some (cur + 1))"
        using Cons.IH [of "cur + 1" "i + 1"] cur rest by simp
      have ih0: "map snd (parse_loop rest (i + 1) cur []) = spec_new_lines rest (Some cur)"
        using Cons.IH [of cur "i + 1"] False cur rest by simp
      show ?thesis
        using not_header False plain ih ih0 plus_not_minus [of line]
          parse_loop_acc [of rest "i + 1" "cur + 1" "[(i + 1, cur)]"]
        by auto
    qed
  qed
qed

text \<open>
  Where no line of a hunk begins with \<open>---\<close> or \<open>+++\<close>, and every header parses, the
  Added-Line Set of the code is that of the specification.
\<close>

lemma addedLineSet_follows_spec:
  "plain_hunk_lines (split_nl diffText) False \<Longrightarrow> addedLineSet diffText = spec_addedLineSet diffText"
  using parse_loop_follows_spec [of "split_nl diffText" "- 1" 0]
  by (simp add: addedLineSet_def spec_addedLineSet_def parseDiffNewlineMap_def)

text \<open>
  C4 (no mapping pair for a line of a hunk whose header does not match) fails on the code
  after a hunk that parsed: the header of the second hunk starts with \<open>@@\<close> and does not
  match, the counter of the first hunk is kept, and the line \<open>+c\<close> of the second hunk is
  mapped to line 3.
\<close>

theorem parseDiffNewlineMap_after_malformed_header:
  "prefix (js ''@@'') (js ''@@@ -7,1 -7,1 +9,2 @@@'') \<and>
   hunk_header_exec (js ''@@@ -7,1 -7,1 +9,2 @@@'') = None \<and>
   parseDiffNewlineMap ex_diff_combined = [(3, 2), (5, 3)] \<and>
   spec_addedLineSet ex_diff_combined = [2]"
  by (simp add: ex_diff_combined_def diff_eval)

text \<open>
  What does hold: while no header has parsed, the loop emits nothing, whatever the lines
  are.
\<close>

lemma parse_loop_before_first_header:
  "list_all (\<lambda>line. prefix (js ''@@'') line \<longrightarrow> hunk_header_exec line = None) lines \<Longrightarrow>
   parse_loop lines i (- 1) mapping = mapping"
  by (induction lines arbitrary: i) auto

section \<open>Properties of the truncation policy\<close>

lemma length_substring_limit:
  "0 \<le> m \<Longrightarrow> m < int (length s) \<Longrightarrow> int (length (substring s 0 m)) = m"
  by (simp add: substring_def Let_def min_def max_def)

text \<open>
  C6 as stated (the emitted snippet has exactly \<open>maxSnippetLength\<close> characters plus the
  marker, for every configured limit) fails for a negative limit, which config.js
  accepts: \<^verbatim>\<open>substring(0, -5)\<close> keeps no character, so the snippet is the marker alone,
  27 characters, where the limit plus the marker gives 22.
\<close>

theorem char_limit_negative_counterexample:
  "int (length (substring (js ''abcdefgh'') (start_offset ex_long) (end_offset ex_long)))
     > maxSnippetLength ex_negative_limit \<and>
   truncation_reason (limitSectionSize ex_long (js ''abcdefgh'') ex_negative_limit)
     = Some (js ''char_limit'') \<and>
   int (length (snippet (limitSectionSize ex_long (js ''abcdefgh'') ex_negative_limit))) = 27 \<and>
   maxSnippetLength ex_negative_limit +
     int (length (char_limit_marker
       (length (substring (js ''abcdefgh'') (start_offset ex_long) (end_offset ex_long))))) = 22 \<and>
   int (length (snippet ex_long_script)) > maxSnippetLength ex_negative_limit \<and>
   int (length (snippet (applySectionSizeLimit ex_long_script ex_negative_limit))) = 27 \<and>
   maxSnippetLength ex_negative_limit +
     int (length (char_limit_marker (length (snippet ex_long_script)))) = 22"
  by (simp add: ex_negative_limit_def ex_long_def ex_long_script_def limitSectionSize_def
      applySectionSizeLimit_def substring_def char_limit_marker_def js_def)

text \<open>
  C6, amended: a unit whose raw snippet is longer than \<open>maxSnippetLength\<close> is emitted with
  \<open>is_truncated\<close> true and \<open>truncation_reason\<close> \<open>char_limit\<close>, whatever the limit and
  whatever the line count of the unit (the character limit is tested first, and the
  line-count check is not reached); when the limit is not negative, the snippet has
  exactly \<open>maxSnippetLength\<close> characters plus the marker. This holds for
  \<open>limitSectionSize\<close> and for \<open>applySectionSizeLimit\<close>, whose result the remapping of the
  Region leaves as it is in these fields.
\<close>

theorem char_limit_truncation:
  "(int (length (substring code (start_offset c) (end_offset c))) > maxSnippetLength cfg \<longrightarrow>
      is_truncated (limitSectionSize c code cfg) = Some True \<and>
      truncation_reason (limitSectionSize c code cfg) = Some (js ''char_limit'') \<and>
      (0 \<le> maxSnippetLength cfg \<longrightarrow>
         int (length (snippet (limitSectionSize c code cfg))) =
           maxSnippetLength cfg +
           int (length (char_limit_marker
             (length (substring code (start_offset c) (end_offset c))))))) \<and>
   (int (length (snippet u)) > maxSnippetLength cfg \<longrightarrow>
      is_truncated (applySectionSizeLimit u cfg) = Some True \<and>
      truncation_reason (applySectionSizeLimit u cfg) = Some (js ''char_limit'') \<and>
      is_truncated (remapSection off (applySectionSizeLimit u cfg)) = Some True \<and>
      truncation_reason (remapSection off (applySectionSizeLimit u cfg)) =
        Some (js ''char_limit'') \<and>
      snippet (remapSection off (applySectionSizeLimit u cfg)) =
        snippet (applySectionSizeLimit u cfg) \<and>
      (0 \<le> maxSnippetLength cfg \<longrightarrow>
         int (length (snippet (applySectionSizeLimit u cfg))) =
           maxSnippetLength cfg + int (length (char_limit_marker (length (snippet u))))))"
proof (intro conjI impI)
  let ?raw = "substring code (start_offset c) (end_offset c)"
  assume big: "maxSnippetLength cfg < int (length ?raw)"
  then show "is_truncated (limitSectionSize c code cfg) = Some True"
    and "truncation_reason (limitSectionSize c code cfg) = Some (js ''char_limit'')"
    by (simp_all add: limitSectionSize_def Let_def)
  assume limit: "0 \<le> maxSnippetLength cfg"
  have "snippet (limitSectionSize c code cfg)
      = substring ?raw 0 (maxSnippetLength cfg) @ char_limit_marker (length ?raw)"
    using big by (simp add: limitSectionSize_def Let_def)
  then show "int (length (snippet (limitSectionSize c code cfg))) =
      maxSnippetLength cfg + int (length (char_limit_marker (length ?raw)))"
    using length_substring_limit [OF limit big] by simp
next
  assume big: "maxSnippetLength cfg < int (length (snippet u))"
  then show "is_truncated (applySectionSizeLimit u cfg) = Some True"
    and "truncation_reason (applySectionSizeLimit u cfg) = Some (js ''char_limit'')"
    and "is_truncated (remapSection off (applySectionSizeLimit u cfg)) = Some True"
    and "truncation_reason (remapSection off (applySectionSizeLimit u cfg)) =
           Some (js ''char_limit'')"
    by (simp_all add: applySectionSizeLimit_def remapSection_def)
  show "snippet (remapSection off (applySectionSizeLimit u cfg)) =
          snippet (applySectionSizeLimit u cfg)"
    by (simp add: remapSection_def)
  assume limit: "0 \<le> maxSnippetLength cfg"
  have "snippet (applySectionSizeLimit u cfg)
      = substring (snippet u) 0 (maxSnippetLength cfg) @ char_limit_marker (length (snippet u))"
    using big by (simp add: applySectionSizeLimit_def)
  then show "int (length (snippet (applySectionSizeLimit u cfg))) =
      maxSnippetLength cfg + int (length (char_limit_marker (length (snippet u))))"
    using length_substring_limit [OF limit big] by simp
qed

theorem char_limit_truncation_witness:
  "0 \<le> maxSnippetLength ex_config \<and>
   size_lines ex_long > maxBlockSizeLines ex_config \<and>
   truncation_reason (limitSectionSize ex_long (js ''abcdefgh'') ex_config) = Some (js ''char_limit'') \<and>
   is_truncated (limitSectionSize ex_long (js ''abcdefgh'') ex_config) = Some True \<and>
   length (snippet (limitSectionSize ex_long (js ''abcdefgh'') ex_config)) = 3 + 27 \<and>
   truncation_reason (applySectionSizeLimit ex_long_script ex_config) = Some (js ''char_limit'') \<and>
   length (snippet (applySectionSizeLimit ex_long_script ex_config)) = 3 + 27 \<and>
   length (snippet (remapSection 5 (applySectionSizeLimit ex_long_script ex_config))) = 3 + 27 \<and>
   is_truncated (limitSectionSize ex_long (js ''abcdefgh'') ex_negative_limit) = Some True \<and>
   truncation_reason (applySectionSizeLimit ex_long_script ex_negative_limit)
     = Some (js ''char_limit'')"
  using char_limit_truncation [of ex_config "js ''abcdefgh''" ex_long ex_long_script 5]
    char_limit_truncation [of ex_negative_limit "js ''abcdefgh''" ex_long ex_long_script 5]
  by (simp add: ex_config_def ex_negative_limit_def ex_long_def ex_long_script_def substring_def
      char_limit_marker_def js_def)

lemma limitSectionSize_fields:
  "start_line (limitSectionSize c code cfg) = start_line c"
  "end_line (limitSectionSize c code cfg) = end_line c"
  "added_lines (limitSectionSize c code cfg) = added_lines c"
  by (simp_all add: limitSectionSize_def Let_def)

lemma applySectionSizeLimit_fields:
  "start_line (applySectionSizeLimit u cfg) = start_line u"
  "end_line (applySectionSizeLimit u cfg) = end_line u"
  "added_lines (applySectionSizeLimit u cfg) = added_lines u"
  by (simp_all add: applySectionSizeLimit_def)

lemma line_count_limit: "line_count (limitSectionSize c code cfg) = line_count c"
  by (simp add: line_count_def limitSectionSize_fields)

section \<open>Invariants of the traversal\<close>

lemma fold_invariant:
  "(\<And>x st. x \<in> set xs \<Longrightarrow> I st \<Longrightarrow> I (f x st)) \<Longrightarrow> I st \<Longrightarrow> I (fold f xs st)"
  by (induction xs arbitrary: st) auto

lemma traverse_node_invariant:
  assumes enter: "\<And>anc n st. I st \<Longrightarrow> I (enter anc n st)"
    and exit: "\<And>st. I st \<Longrightarrow> I (exit st)"
  shows "I st \<Longrightarrow> I (traverse_node enter exit anc t st)"
proof (induction t arbitrary: anc st)
  case (Node n cs)
  have children: "I (fold (traverse_node enter exit (n # anc)) cs st')" if "I st'" for st'
    using that Node.IH by (intro fold_invariant [where I = I]) auto
  show ?case
    using Node.prems enter exit children by (simp add: Let_def)
qed

lemma traverse_invariant:
  assumes enter: "\<And>anc n st. I st \<Longrightarrow> I (enter anc n st)"
    and exit: "\<And>st. I st \<Longrightarrow> I (exit st)"
    and init: "I st"
  shows "I (traverse enter exit t st)"
proof (cases t)
  case (Node root cs)
  show ?thesis
    unfolding Node traverse.simps
    by (rule fold_invariant [where I = I])
       (auto intro: traverse_node_invariant [where I = I] enter exit init)
qed

lemma unit_of_section_ok: "unit_of addedLines u \<Longrightarrow> section_ok u"
proof -
  assume u: "unit_of addedLines u"
  then have "\<forall>l \<in> set (added_lines u). start_line u \<le> l \<and> l \<le> end_line u"
    by (metis (mono_tags, lifting) unit_of_def mem_Collect_eq set_filter)
  with u show ?thesis
    unfolding section_ok_def unit_of_def list_all_iff by blast
qed

lemma unit_of_subset: "unit_of addedLines u \<Longrightarrow> set (added_lines u) \<subseteq> set addedLines"
  unfolding unit_of_def by (metis filter_is_subset)

lemma unit_of_limit:
  "unit_of addedLines u \<Longrightarrow> unit_of addedLines (applySectionSizeLimit u cfg)"
  unfolding unit_of_def applySectionSizeLimit_fields .

lemma depth_exit_sections: "sections (depth_exit st) = sections st"
  by (simp add: depth_exit_def)

lemma collect_enter_units:
  "list_all (unit_of addedLines) (sections st) \<Longrightarrow>
   list_all (unit_of addedLines) (sections (collect_enter cfg addedLines anc n st))"
  by (auto simp: collect_enter_def depth_enter_def Let_def unit_of_def split: option.splits)

lemma collectImpactedSections_units:
  assumes "collectImpactedSections tree code addedLines cfg = Inr cands"
  shows "list_all (unit_of addedLines) cands"
proof -
  let ?st = "traverse (collect_enter cfg addedLines) depth_exit tree
               \<lparr>sections = [], currentDepth = 0, thrown = None\<rparr>"
  have "list_all (unit_of addedLines) (sections ?st)"
    by (rule traverse_invariant [where I = "\<lambda>st. list_all (unit_of addedLines) (sections st)"])
       (simp_all add: collect_enter_units depth_exit_sections)
  moreover have "cands = sections ?st"
    using assms by (auto simp: collectImpactedSections_def Let_def split: option.splits if_splits)
  ultimately show ?thesis by simp
qed

text \<open>
  Every candidate that the traversal hands to the Selector holds an added line.
\<close>

lemma collectImpactedSections_nonempty:
  "collectImpactedSections tree code addedLines cfg = Inr cands \<Longrightarrow>
   list_all (\<lambda>c. added_lines c \<noteq> []) cands"
  using collectImpactedSections_units [of tree code addedLines cfg cands]
  unfolding list_all_iff unit_of_def by blast

lemma collect_enter_sizes:
  "list_all (\<lambda>c. size_lines c = line_count c) (sections st) \<Longrightarrow>
   list_all (\<lambda>c. size_lines c = line_count c) (sections (collect_enter cfg addedLines anc n st))"
  by (auto simp: collect_enter_def depth_enter_def Let_def line_count_def split: option.splits)

lemma collectImpactedSections_sizes:
  assumes "collectImpactedSections tree code addedLines cfg = Inr cands"
  shows "list_all (\<lambda>c. size_lines c = line_count c) cands"
proof -
  let ?st = "traverse (collect_enter cfg addedLines) depth_exit tree
               \<lparr>sections = [], currentDepth = 0, thrown = None\<rparr>"
  have "list_all (\<lambda>c. size_lines c = line_count c) (sections ?st)"
    by (rule traverse_invariant
          [where I = "\<lambda>st. list_all (\<lambda>c. size_lines c = line_count c) (sections st)"])
       (simp_all add: collect_enter_sizes depth_exit_sections)
  moreover have "cands = sections ?st"
    using assms by (auto simp: collectImpactedSections_def Let_def split: option.splits if_splits)
  ultimately show ?thesis by simp
qed

lemma script_enter_units:
  "list_all (unit_of addedLines) (sections st) \<Longrightarrow>
   list_all (unit_of addedLines) (sections (script_enter cfg content' addedLines anc n st))"
  by (auto simp: script_enter_def depth_enter_def Let_def unit_of_def split: option.splits prod.splits)

lemma collectScriptSections_units:
  assumes "collectScriptSections tree content' addedLines cfg = Inr cands"
  shows "list_all (unit_of addedLines) cands"
proof -
  let ?st = "traverse (script_enter cfg content' addedLines) depth_exit tree
               \<lparr>sections = [], currentDepth = 0, thrown = None\<rparr>"
  have "list_all (unit_of addedLines) (sections ?st)"
    by (rule traverse_invariant [where I = "\<lambda>st. list_all (unit_of addedLines) (sections st)"])
       (simp_all add: script_enter_units depth_exit_sections)
  moreover have "cands = sections ?st"
    using assms by (auto simp: collectScriptSections_def Let_def split: option.splits if_splits)
  ultimately show ?thesis by simp
qed

section \<open>The selector of the component extractor\<close>

lemma select_loop_vue_from:
  "set (select_loop_vue cfg addedLines xs sel cov)
     \<subseteq> set sel \<union> (\<lambda>u. applySectionSizeLimit u cfg) ` set xs"
proof (induction xs arbitrary: sel cov)
  case Nil
  show ?case by simp
next
  case (Cons x xs)
  show ?case
    using Cons.IH [of sel cov]
      Cons.IH [of "sel @ [applySectionSizeLimit x cfg]"
        "cov \<union> set (filter (\<lambda>line. start_line x \<le> line \<and> line \<le> end_line x) addedLines)"]
    by (auto simp: Let_def)
qed

lemma selectSmallestSections_vue_from:
  "set (selectSmallestSections_vue cfg units addedLines)
     \<subseteq> (\<lambda>u. applySectionSizeLimit u cfg) ` set units"
proof (cases units)
  case Nil
  then show ?thesis by (simp add: selectSmallestSections_vue_def)
next
  case (Cons u us)
  show ?thesis
  proof (cases us)
    case Nil
    with Cons show ?thesis by (simp add: selectSmallestSections_vue_def)
  next
    case (Cons v vs)
    have "set (select_loop_vue cfg addedLines (sort_key block_size units) [] {})
        \<subseteq> (\<lambda>u. applySectionSizeLimit u cfg) ` set units"
      using select_loop_vue_from [of cfg addedLines "sort_key block_size units" "[]" "{}"] by simp
    moreover have "selectSmallestSections_vue cfg units addedLines
        = select_loop_vue cfg addedLines (sort_key block_size units) [] {}"
      unfolding \<open>units = u # us\<close> Cons by (simp add: selectSmallestSections_vue_def)
    ultimately show ?thesis by simp
  qed
qed

section \<open>The remapping of a Region\<close>

lemma set_new_Set_fold:
  "set (fold (\<lambda>x s. set_add s x) xs acc) = set acc \<union> set xs"
  by (induction xs arbitrary: acc) auto

lemma set_new_Set: "set (new_Set xs) = set xs"
  unfolding new_Set_def set_new_Set_fold by simp

lemma new_Set_map_fold:
  assumes "inj f"
  shows "fold (\<lambda>x s. set_add s x) (map f xs) (map f acc) = map f (fold (\<lambda>x s. set_add s x) xs acc)"
proof (induction xs arbitrary: acc)
  case Nil
  show ?case by simp
next
  case (Cons x xs)
  have "set_add (map f acc) (f x) = map f (set_add acc x)"
    using assms by (auto simp: inj_image_mem_iff)
  then show ?case
    using Cons.IH [of "set_add acc x"] by (simp del: set_add.simps)
qed

lemma new_Set_map: "inj f \<Longrightarrow> new_Set (map f xs) = map f (new_Set xs)"
  using new_Set_map_fold [of f xs "[]"] by (simp add: new_Set_def)

lemma set_adjustAddedLines:
  "set (adjustAddedLines addedLines scriptStartLine)
     = (\<lambda>g. g - scriptStartLine + 1) ` {g \<in> set addedLines. scriptStartLine \<le> g}"
  by (auto simp: adjustAddedLines_def set_new_Set)

lemma adjustAddedLines_back:
  "map (\<lambda>l. l + scriptStartLine - 1) (adjustAddedLines addedLines scriptStartLine)
     = new_Set (filter (\<lambda>g. scriptStartLine \<le> g) addedLines)"
proof -
  have inj: "inj (\<lambda>line::int. line - scriptStartLine + 1)"
    by (rule injI) simp
  show ?thesis
    unfolding adjustAddedLines_def new_Set_map [OF inj]
    by (simp add: comp_def)
qed

lemma remapSection_ok: "section_ok u \<Longrightarrow> section_ok (remapSection scriptStartLine u)"
  by (auto simp: section_ok_def remapSection_def list_all_iff)

lemma extractScriptContext_units:
  assumes "s \<in> set (script_sections (extractScriptContext w cfg content' addedLines scriptStartLine))"
  shows "\<exists>u. unit_of (adjustAddedLines addedLines scriptStartLine) u \<and>
             s = remapSection scriptStartLine (applySectionSizeLimit u cfg)"
proof -
  let ?adj = "adjustAddedLines addedLines scriptStartLine"
  from assms obtain tree units where
    units: "collectScriptSections tree content' ?adj cfg = Inr units" and
    s: "s \<in> remapSection scriptStartLine ` set (selectSmallestSections_vue cfg units ?adj)"
    by (auto simp: extractScriptContext_def Let_def split: sum.splits if_splits)
  from s obtain u where "u \<in> set units"
      "s = remapSection scriptStartLine (applySectionSizeLimit u cfg)"
    using selectSmallestSections_vue_from [of cfg units ?adj] by blast
  moreover have "unit_of ?adj u"
    using collectScriptSections_units [OF units] \<open>u \<in> set units\<close> by (simp add: list_all_iff)
  ultimately show ?thesis by blast
qed

lemma remapSection_lines:
  "unit_of (adjustAddedLines addedLines off) u \<Longrightarrow>
   set (added_lines (remapSection off u)) \<subseteq> {g \<in> set addedLines. off \<le> g}"
proof -
  assume "unit_of (adjustAddedLines addedLines off) u"
  then have "set (added_lines u) \<subseteq> (\<lambda>g. g - off + 1) ` {g \<in> set addedLines. off \<le> g}"
    using unit_of_subset set_adjustAddedLines by blast
  then show ?thesis
    by (auto simp: remapSection_def)
qed

section \<open>The dispatch\<close>

lemma result_sections_dispatch:
  "result_sections (extractAstContext w p a r) =
     (if is_script_path p then result_sections (extractJsAstContext w p a r)
      else if is_vue_path p then result_sections (extractVueAstContext w p a r)
      else [])"
  by (simp add: extractAstContext_def try_catch_def dispatch_def result_sections_def
      split: sum.splits)

section \<open>The examples, evaluated\<close>

lemma ex_world_fields:
  "getAstConfig ex_world = Inr ex_defaults"
  "readFileSafe ex_world (js ''src/a.js'') root = Some ex_code"
  "readFileSafe ex_world (js ''src/App.vue'') root
     = Some (js ''<template/>'' @ [10] @ js ''<script>'' @ ex_script @ js ''</script>'')"
  "parseCode ex_world code = Inr ex_tree"
  "parseCode_timer_first ex_world = False"
  "parseScript ex_world code = Inr ex_script_tree"
  "loadVueSfcCompiler ex_world = Some (\<lambda>code filename. Inr ex_sfc)"
  "parseSFC_timer_first ex_world = False"
  "clock_start ex_world = 1000"
  "clock_end ex_world = 1012"
  by (simp_all add: ex_world_def js_inject)

lemma ex_collect:
  "collectImpactedSections ex_tree ex_code [2, 8] ex_defaults = Inr [ex_big, ex_small]"
  by (simp add: collectImpactedSections_def ex_tree_def leaf_def collect_enter_def depth_enter_def
      depth_exit_def isTargetNode_def js_inject js_eq_Nil getNodeName_def ex_defaults_def
      ex_big_def ex_small_def)

lemma ex_select_js: "selectSmallestSections [ex_big, ex_small] [2, 8] = [ex_small, ex_big]"
  by (simp add: selectSmallestSections_def ex_big_def ex_small_def)

lemma ex_code_not_empty: "ex_code \<noteq> []"
  by (simp add: ex_code_def js_def)

lemma ex_js_path: "is_script_path (js ''src/a.js'')"
  unfolding is_script_path_def suffix_js by (simp add: suffix_to_prefix)

lemma ex_extract_js:
  "extractJsAstContext ex_world (js ''src/a.js'') [2, 8] (js ''/repo'') =
     Inr \<lparr>impacted_sections = [limitSectionSize ex_small ex_code ex_defaults,
                                  limitSectionSize ex_big ex_code ex_defaults],
          errors = [], component = None\<rparr>"
  by (simp add: extractJsAstContext_def ex_world_fields withTimeout_def ex_collect ex_select_js
      ex_code_not_empty)

lemma ex_extract_js_sections:
  "result_sections (extractAstContext ex_world (js ''src/a.js'') [2, 8] (js ''/repo''))
     = [limitSectionSize ex_small ex_code ex_defaults, limitSectionSize ex_big ex_code ex_defaults]"
  unfolding result_sections_dispatch
  by (simp add: ex_js_path ex_extract_js result_sections_def)

lemma ex_adjust: "adjustAddedLines [6, 1] 2 = [5]"
  by (simp add: adjustAddedLines_def new_Set_def)

lemma ex_snippet:
  "substring ex_script 35 66 = js ''greet() {'' @ [10] @ js ''      return 1;'' @ [10] @ js ''    }''"
  by (simp add: substring_def ex_script_def js_def)

lemma ex_vue_methods: "js ''vue_'' @ js ''methods'' = js ''vue_methods''"
  by (simp add: js_def)

lemma ex_collect_script:
  "collectScriptSections ex_script_tree ex_script [5] ex_defaults = Inr [ex_greet]"
  by (simp add: collectScriptSections_def ex_script_tree_def leaf_def script_enter_def
      depth_enter_def depth_exit_def isScriptTargetNode_def js_inject js_eq_Nil
      getScriptNodeInfo_def declaratorParent_def detectVueContext_def ex_defaults_def
      ex_greet_def ex_snippet ex_vue_methods)

lemma ex_limit_greet: "applySectionSizeLimit ex_greet ex_defaults = ex_greet"
  by (simp add: applySectionSizeLimit_def ex_greet_def ex_defaults_def js_def)

lemma ex_script_context:
  "extractScriptContext ex_world ex_defaults ex_script [6, 1] 2 =
     \<lparr>script_sections = [remapSection 2 ex_greet], script_errors = []\<rparr>"
  by (simp add: extractScriptContext_def ex_world_fields ex_adjust ex_collect_script
      selectSmallestSections_vue_def ex_limit_greet Let_def)

lemma ex_vue_path: "\<not> is_script_path (js ''src/App.vue'') \<and> is_vue_path (js ''src/App.vue'')"
  unfolding is_script_path_def is_vue_path_def suffix_js by (simp add: suffix_to_prefix)

lemma ex_script_not_empty: "ex_script \<noteq> []"
  by (simp add: ex_script_def js_def)

lemma ex_vue_file_not_empty:
  "js ''<template/>'' @ [10] @ js ''<script>'' @ ex_script @ js ''</script>'' \<noteq> []"
  by (simp add: js_def)

lemma ex_analyse_script:
  "analyseRegion ex_world ex_defaults [6, 1] (script (descriptor ex_sfc))
     = \<lparr>script_sections = [remapSection 2 ex_greet], script_errors = []\<rparr>"
  "analyseRegion ex_world ex_defaults [6, 1] (scriptSetup (descriptor ex_sfc))
     = \<lparr>script_sections = [], script_errors = []\<rparr>"
  by (simp_all add: analyseRegion_def ex_sfc_def ex_script_not_empty ex_script_context)

lemma ex_extract_vue:
  "result_sections (extractAstContext ex_world (js ''src/App.vue'') [6, 1] (js ''/repo''))
     = [remapSection 2 ex_greet]"
  unfolding result_sections_dispatch
  by (simp add: ex_vue_path extractVueAstContext_def ex_world_fields withTimeout_def
      result_sections_def ex_vue_file_not_empty ex_analyse_script Let_def)

lemma ex_png_path: "\<not> is_script_path (js ''logo.png'') \<and> \<not> is_vue_path (js ''logo.png'')"
  unfolding is_script_path_def is_vue_path_def suffix_js by (simp add: suffix_to_prefix)

lemma ex_no_config:
  "extractJsAstContext ex_world_no_config (js ''src/a.js'') [2, 8] (js ''/repo'')
     = Inl (js ''missing GITLAB_TOKEN'')"
  by (simp add: extractJsAstContext_def ex_world_no_config_def)

lemma ex_no_config_clock:
  "clock_end ex_world_no_config - clock_start ex_world_no_config = 12"
  by (simp add: ex_world_no_config_def ex_world_def)

section \<open>The round trip of the remapping\<close>

text \<open>
  C7 (remapping of a Region that starts at line \<open>off\<close>): the local added lines are the
  global ones from \<open>off\<close> on, each moved to \<open>g - off + 1\<close>, the earlier ones dropped;
  moving them back by \<open>l + off - 1\<close> gives the global lines from \<open>off\<close> on again; a
  Section's \<open>start_line\<close>, \<open>end_line\<close> and \<open>added_lines\<close> are moved back by
  \<open>l + off - 1\<close>; and every added line of a Section returned by
  \<open>extractScriptContext\<close> is one of the global added lines from \<open>off\<close> on.
\<close>

theorem region_remapping_round_trip:
  "set (adjustAddedLines addedLines off) = (\<lambda>g. g - off + 1) ` {g \<in> set addedLines. off \<le> g} \<and>
   map (\<lambda>l. l + off - 1) (adjustAddedLines addedLines off)
     = new_Set (filter (\<lambda>g. off \<le> g) addedLines) \<and>
   start_line (remapSection off u) = start_line u + off - 1 \<and>
   end_line (remapSection off u) = end_line u + off - 1 \<and>
   added_lines (remapSection off u) = map (\<lambda>l. l + off - 1) (added_lines u) \<and>
   list_all (\<lambda>s. set (added_lines s) \<subseteq> {g \<in> set addedLines. off \<le> g})
     (script_sections (extractScriptContext w cfg scriptContent addedLines off))"
proof (intro conjI)
  show "list_all (\<lambda>s. set (added_lines s) \<subseteq> {g \<in> set addedLines. off \<le> g})
     (script_sections (extractScriptContext w cfg scriptContent addedLines off))"
    unfolding list_all_iff
  proof
    fix s
    assume "s \<in> set (script_sections (extractScriptContext w cfg scriptContent addedLines off))"
    then obtain u where "unit_of (adjustAddedLines addedLines off) u"
        "s = remapSection off (applySectionSizeLimit u cfg)"
      using extractScriptContext_units by blast
    then show "set (added_lines s) \<subseteq> {g \<in> set addedLines. off \<le> g}"
      using remapSection_lines [OF unit_of_limit] by blast
  qed
qed (simp_all add: set_adjustAddedLines adjustAddedLines_back remapSection_def)

theorem region_remapping_witness:
  "adjustAddedLines [20, 3] 5 = [16] \<and>
   map (\<lambda>l. l + 5 - 1) (adjustAddedLines [20, 3] 5) = [20] \<and>
   script_sections (extractScriptContext ex_world ex_defaults ex_script [6, 1] 2)
     = [remapSection 2 ex_greet] \<and>
   added_lines (remapSection 2 ex_greet) = [6] \<and>
   start_line (remapSection 2 ex_greet) = 5 \<and>
   end_line (remapSection 2 ex_greet) = 7"
  using region_remapping_round_trip [of "[20, 3]" 5 ex_greet ex_world ex_defaults ex_script]
    region_remapping_round_trip [of "[6, 1]" 2 ex_greet ex_world ex_defaults ex_script]
  by (simp add: ex_script_context adjustAddedLines_def new_Set_def remapSection_def ex_greet_def)

section \<open>The order of the result\<close>

lemma extractJsAstContext_order:
  "sorted (map line_count (result_sections (extractJsAstContext w p a r)))"
proof (cases "extractJsAstContext w p a r")
  case (Inl m)
  then show ?thesis by (simp add: result_sections_def)
next
  case (Inr res)
  show ?thesis
  proof (cases "impacted_sections res = []")
    case True
    with Inr show ?thesis by (simp add: result_sections_def)
  next
    case False
    with Inr obtain cfg code tree cands where
      cands: "collectImpactedSections tree code a cfg = Inr cands" and
      res: "impacted_sections res =
              map (\<lambda>s. limitSectionSize s code cfg) (selectSmallestSections cands a)"
      by (auto simp: extractJsAstContext_def split: sum.splits option.splits)
    have "\<forall>c \<in> set (selectSmallestSections cands a). size_lines c = line_count c"
      using collectImpactedSections_sizes [OF cands] selectSmallestSections_subset [of cands a]
      by (auto simp: list_all_iff)
    then have "map line_count (impacted_sections res)
        = map size_lines (selectSmallestSections cands a)"
      unfolding res by (simp add: comp_def line_count_limit)
    then show ?thesis
      using Inr selectSmallestSections_sorted [of cands a] by (simp add: result_sections_def)
  qed
qed

lemma extractVueAstContext_order:
  "sorted (map start_line (result_sections (extractVueAstContext w p a r)))"
proof (cases "extractVueAstContext w p a r")
  case (Inl m)
  then show ?thesis by (simp add: result_sections_def)
next
  case (Inr res)
  then have "impacted_sections res = [] \<or>
      (\<exists>xs. impacted_sections res = sort_key start_line xs)"
    by (auto simp: extractVueAstContext_def Let_def split: sum.splits option.splits)
  then show ?thesis
    using Inr by (auto simp: result_sections_def)
qed

text \<open>
  C5 as stated (sorted by \<open>start_line\<close> on both paths) fails on the plain-script path:
  the function on lines 7-9 is smaller than the function on lines 1-5, the Selector puts
  it first, and \<open>extractJsAstContext\<close> does not sort.
\<close>

theorem script_path_order_counterexample:
  "map start_line (result_sections (extractAstContext ex_world (js ''src/a.js'') [2, 8] (js ''/repo'')))
     = [7, 1] \<and>
   \<not> sorted (map start_line
       (result_sections (extractAstContext ex_world (js ''src/a.js'') [2, 8] (js ''/repo''))))"
  by (simp add: extractAstContext_def try_catch_def dispatch_def ex_js_path ex_extract_js
      result_sections_def limitSectionSize_fields ex_small_def ex_big_def)

text \<open>
  C5, amended: for a file that does not take the plain-script path (the component path,
  or no extractor at all) the \<open>impacted_sections\<close> of the result are sorted in ascending
  order of \<open>start_line\<close>; on the plain-script path they are in the Selector's order,
  ascending in the line count of the units.
\<close>

theorem impacted_sections_order:
  "(\<not> is_script_path filePath \<longrightarrow>
      sorted (map start_line (result_sections (extractAstContext w filePath addedLines projectRoot)))) \<and>
   (is_script_path filePath \<longrightarrow>
      sorted (map line_count (result_sections (extractAstContext w filePath addedLines projectRoot))))"
  using extractJsAstContext_order [of w filePath addedLines projectRoot]
    extractVueAstContext_order [of w filePath addedLines projectRoot]
  by (simp add: result_sections_dispatch)

theorem impacted_sections_order_witness:
  "is_script_path (js ''src/a.js'') \<and>
   sorted (map line_count
     (result_sections (extractAstContext ex_world (js ''src/a.js'') [2, 8] (js ''/repo'')))) \<and>
   \<not> is_script_path (js ''src/App.vue'') \<and>
   sorted (map start_line
     (result_sections (extractAstContext ex_world (js ''src/App.vue'') [6, 1] (js ''/repo'')))) \<and>
   map start_line
     (result_sections (extractAstContext ex_world (js ''src/App.vue'') [6, 1] (js ''/repo''))) = [5]"
  using impacted_sections_order [of "js ''src/a.js''" ex_world "[2, 8]" "js ''/repo''"]
    impacted_sections_order [of "js ''src/App.vue''" ex_world "[6, 1]" "js ''/repo''"]
  by (simp add: ex_js_path ex_vue_path ex_extract_vue remapSection_def ex_greet_def)

section \<open>The invariant of the emitted Sections\<close>

lemma extractJsAstContext_ok:
  "list_all section_ok (result_sections (extractJsAstContext w p a r))"
proof (cases "extractJsAstContext w p a r")
  case (Inl m)
  then show ?thesis by (simp add: result_sections_def)
next
  case (Inr res)
  show ?thesis
  proof (cases "impacted_sections res = []")
    case True
    with Inr show ?thesis by (simp add: result_sections_def)
  next
    case False
    with Inr obtain cfg code tree cands where
      cands: "collectImpactedSections tree code a cfg = Inr cands" and
      res: "impacted_sections res =
              map (\<lambda>s. limitSectionSize s code cfg) (selectSmallestSections cands a)"
      by (auto simp: extractJsAstContext_def split: sum.splits option.splits)
    have "\<forall>c \<in> set (selectSmallestSections cands a). section_ok c"
      using collectImpactedSections_units [OF cands] selectSmallestSections_subset [of cands a]
      by (auto simp: list_all_iff intro: unit_of_section_ok)
    then have "list_all section_ok (impacted_sections res)"
      unfolding res by (simp add: list_all_iff section_ok_def limitSectionSize_fields)
    with Inr show ?thesis by (simp add: result_sections_def)
  qed
qed

lemma extractScriptContext_ok:
  "list_all section_ok (script_sections (extractScriptContext w cfg content' a off))"
  unfolding list_all_iff
proof
  fix s
  assume "s \<in> set (script_sections (extractScriptContext w cfg content' a off))"
  then obtain u where "unit_of (adjustAddedLines a off) u"
      "s = remapSection off (applySectionSizeLimit u cfg)"
    using extractScriptContext_units by blast
  then show "section_ok s"
    using remapSection_ok [OF unit_of_section_ok [OF unit_of_limit]] by blast
qed

lemma analyseRegion_ok:
  "list_all section_ok (script_sections (analyseRegion w cfg a block))"
  by (simp add: analyseRegion_def extractScriptContext_ok split: option.splits)

lemma list_all_sort_key: "list_all P (sort_key f xs) = list_all P xs"
  by (simp add: list_all_iff)

lemma extractVueAstContext_ok:
  "list_all section_ok (result_sections (extractVueAstContext w p a r))"
  by (simp add: extractVueAstContext_def result_sections_def Let_def list_all_sort_key
      analyseRegion_ok split: sum.split option.split)

text \<open>
  C10 (invariant of every emitted Section): in the result of either extractor, and of the
  dispatch, every Section has a non-empty \<open>added_lines\<close> list whose elements lie between
  its \<open>start_line\<close> and its \<open>end_line\<close>.
\<close>

theorem impacted_sections_well_formed:
  "list_all section_ok (result_sections (extractJsAstContext w filePath addedLines projectRoot)) \<and>
   list_all section_ok (result_sections (extractVueAstContext w filePath addedLines projectRoot)) \<and>
   list_all section_ok (result_sections (extractAstContext w filePath addedLines projectRoot))"
  using extractJsAstContext_ok [of w filePath addedLines projectRoot]
    extractVueAstContext_ok [of w filePath addedLines projectRoot]
  by (simp add: result_sections_dispatch)

theorem impacted_sections_well_formed_witness:
  "result_sections (extractAstContext ex_world (js ''src/App.vue'') [6, 1] (js ''/repo''))
     = [remapSection 2 ex_greet] \<and>
   section_ok (remapSection 2 ex_greet) \<and>
   length (result_sections (extractAstContext ex_world (js ''src/a.js'') [2, 8] (js ''/repo''))) = 2 \<and>
   list_all section_ok
     (result_sections (extractAstContext ex_world (js ''src/a.js'') [2, 8] (js ''/repo'')))"
  using impacted_sections_well_formed [of ex_world "js ''src/App.vue''" "[6, 1]" "js ''/repo''"]
    impacted_sections_well_formed [of ex_world "js ''src/a.js''" "[2, 8]" "js ''/repo''"]
  by (simp add: ex_extract_vue ex_extract_js_sections)

section \<open>The dispatch never raises\<close>

text \<open>
  C8 (the dispatch never raises): \<open>extractAstContext\<close> returns a result for every
  file path and added-line set; a path with no recognised extension gives the empty
  result tagged \<open>unsupported_file_type\<close>; an exception of an inner extractor gives the
  empty result tagged \<open>unexpected_error: \<close> followed by its message.
\<close>

theorem extractAstContext_never_raises:
  "(\<exists>res. extractAstContext w filePath addedLines projectRoot = Inr res) \<and>
   (\<not> is_script_path filePath \<and> \<not> is_vue_path filePath \<longrightarrow>
      extractAstContext w filePath addedLines projectRoot =
        Inr \<lparr>impacted_sections = [], errors = [js ''unsupported_file_type''], component = None,
             parse_time_ms = clock_end w - clock_start w\<rparr>) \<and>
   (is_script_path filePath \<and> extractJsAstContext w filePath addedLines projectRoot = Inl message \<longrightarrow>
      extractAstContext w filePath addedLines projectRoot =
        Inr \<lparr>impacted_sections = [], errors = [js ''unexpected_error: '' @ message],
             component = None, parse_time_ms = clock_end w - clock_start w\<rparr>) \<and>
   (\<not> is_script_path filePath \<and> is_vue_path filePath \<and>
    extractVueAstContext w filePath addedLines projectRoot = Inl message \<longrightarrow>
      extractAstContext w filePath addedLines projectRoot =
        Inr \<lparr>impacted_sections = [], errors = [js ''unexpected_error: '' @ message],
             component = None, parse_time_ms = clock_end w - clock_start w\<rparr>)"
  by (auto simp: extractAstContext_def try_catch_def dispatch_def split: sum.splits)

theorem extractAstContext_never_raises_witness:
  "extractAstContext ex_world (js ''logo.png'') [2, 8] (js ''/repo'') =
     Inr \<lparr>impacted_sections = [], errors = [js ''unsupported_file_type''], component = None,
          parse_time_ms = 12\<rparr> \<and>
   extractAstContext ex_world_no_config (js ''src/a.js'') [2, 8] (js ''/repo'') =
     Inr \<lparr>impacted_sections = [],
          errors = [js ''unexpected_error: '' @ js ''missing GITLAB_TOKEN''],
          component = None, parse_time_ms = 12\<rparr>"
  using extractAstContext_never_raises [of ex_world "js ''logo.png''" "[2, 8]" "js ''/repo''"]
    extractAstContext_never_raises [of ex_world_no_config "js ''src/a.js''" "[2, 8]" "js ''/repo''"
      "js ''missing GITLAB_TOKEN''"]
  by (simp add: ex_png_path ex_js_path ex_no_config ex_world_fields ex_no_config_clock)

end
